theory Spec2Isabelle
  imports Complex_Main
begin

section \<open>The METAR report decoder of metar.cpp\<close>

text \<open>
  The decoder of \<^verbatim>\<open>src/metar.cpp\<close> reads a NUL-terminated string, cuts it into
  tokens with \<^verbatim>\<open>strtok(_, " ")\<close> and offers every token to an if / else-if chain of
  shape predicates, each guarded by the presence test of its field. The embedding keeps the
  source's functions one by one.

  Conventions of the embedding:
  \<^item> a C string is a \<open>string\<close> without its terminator; a pointer into it is the suffix it
    points to, or an offset where the source subtracts pointers;
  \<^item> \<^verbatim>\<open>int\<close> is \<open>int\<close>: every \<^verbatim>\<open>atoi\<close> the claims reach reads at most four digits;
  \<^item> a \<^verbatim>\<open>double\<close> is the exact rational it stands for, or an infinity or NaN where the
    source divides by zero; rounding is not modelled;
  \<^item> the local scratch arrays (\<^verbatim>\<open>char val[4]\<close> and the like) are the characters copied
    into them; their capacity is not modelled;
  \<^item> the members of the class are the fields of the record \<open>metar\<close>, \<^verbatim>\<open>_day\<close> being
    \<open>m_day\<close>, and every member function takes the object and returns it updated.
\<close>

subsection \<open>Characters and the C library\<close>

definition NUL :: char where
  "NUL = CHR 0x00"

definition isdigit :: "char \<Rightarrow> bool" where
  "isdigit c = (c \<in> set ''0123456789'')"

definition isalpha :: "char \<Rightarrow> bool" where
  "isalpha c = (c \<in> set ''ABCDEFGHIJKLMNOPQRSTUVWXYZabcdefghijklmnopqrstuvwxyz'')"

definition isspace :: "char \<Rightarrow> bool" where
  "isspace c = (c \<in> set [CHR '' '', CHR 0x09, CHR 0x0A, CHR 0x0B, CHR 0x0C, CHR 0x0D])"

definition digit_value :: "char \<Rightarrow> int" where
  "digit_value c = int (of_char c) - 48"

text \<open>The digits at the head of a string, read in base ten.\<close>

fun read_digits :: "int \<Rightarrow> string \<Rightarrow> int" where
  "read_digits acc [] = acc"
| "read_digits acc (c # cs) =
     (if isdigit c then read_digits (acc * 10 + digit_value c) cs else acc)"

text \<open>
  \<^verbatim>\<open>atoi\<close>: white space, an optional sign, then digits; 0 when there is no digit.
\<close>

definition atoi :: "string \<Rightarrow> int" where
  "atoi s =
     (case dropWhile isspace s of
        [] \<Rightarrow> 0
      | c # cs \<Rightarrow>
          if c = CHR ''-'' then - read_digits 0 cs
          else if c = CHR ''+'' then read_digits 0 cs
          else read_digits 0 (c # cs))"

text \<open>
  \<^verbatim>\<open>strstr\<close>: the offset of the first occurrence of the needle, \<open>None\<close> for the null
  pointer.
\<close>

fun strstr :: "string \<Rightarrow> string \<Rightarrow> nat option" where
  "strstr [] needle = (if needle = [] then Some 0 else None)"
| "strstr (c # cs) needle =
     (if take (length needle) (c # cs) = needle then Some 0
      else map_option Suc (strstr cs needle))"

subsection \<open>Doubles\<close>

datatype double = Fin rat | PInf | NInf | NaN

text \<open>
  \<^verbatim>\<open>atof\<close> is applied by the decoder to strings of digits, \<^verbatim>\<open>/\<close>, \<^verbatim>\<open>S\<close>, \<^verbatim>\<open>M\<close> and a
  leading \<^verbatim>\<open>-\<close> only (the shape predicates see to it), where it reads the same leading
  integer as \<^verbatim>\<open>atoi\<close>.
\<close>

definition atof :: "string \<Rightarrow> double" where
  "atof s = Fin (of_int (atoi s))"

fun ddiv :: "double \<Rightarrow> double \<Rightarrow> double" where
  "ddiv (Fin a) (Fin b) =
     (if b \<noteq> 0 then Fin (a / b) else if a = 0 then NaN else if 0 < a then PInf else NInf)"
| "ddiv NaN _ = NaN"
| "ddiv _ NaN = NaN"
| "ddiv (Fin a) _ = Fin 0"
| "ddiv PInf (Fin b) = (if 0 \<le> b then PInf else NInf)"
| "ddiv NInf (Fin b) = (if 0 \<le> b then NInf else PInf)"
| "ddiv _ _ = NaN"

fun dadd :: "double \<Rightarrow> double \<Rightarrow> double" where
  "dadd (Fin a) (Fin b) = Fin (a + b)"
| "dadd NaN _ = NaN"
| "dadd _ NaN = NaN"
| "dadd PInf NInf = NaN"
| "dadd NInf PInf = NaN"
| "dadd PInf _ = PInf"
| "dadd _ PInf = PInf"
| "dadd NInf _ = NInf"
| "dadd _ NInf = NInf"

subsection \<open>Constants and tables\<close>

definition INTEGER_UNDEFINED :: int where
  "INTEGER_UNDEFINED = - (2 ^ 31)"

text \<open>\<^verbatim>\<open>DBL_MAX\<close>, the largest finite double.\<close>

definition DOUBLE_UNDEFINED :: double where
  "DOUBLE_UNDEFINED = Fin (2 ^ 1024 - 2 ^ 971)"

definition MAX_CLOUD_LAYERS :: nat where
  "MAX_CLOUD_LAYERS = 3"

definition WIND_SPEED_KT :: string where "WIND_SPEED_KT = ''KT''"
definition WIND_SPEED_MPS :: string where "WIND_SPEED_MPS = ''MPS''"
definition WIND_SPEED_KPH :: string where "WIND_SPEED_KPH = ''KPH''"

definition VIS_UNITS_M :: string where "VIS_UNITS_M = ''M''"
definition VIS_UNITS_SM :: string where "VIS_UNITS_SM = ''SM''"

definition sky_conditions :: "string list" where
  "sky_conditions = [''SKC'', ''CLR'', ''NSC'', ''FEW'', ''SCT'', ''BKN'', ''OVC'']"

definition cloud_types :: "string list" where
  "cloud_types = [''TCU'', ''CB'', ''ACC'']"

subsection \<open>The decoded report\<close>

text \<open>
  \<^verbatim>\<open>SkyConditionImpl\<close>: the cover code, the altitude (\<^verbatim>\<open>INT_MIN\<close> when there is none) and
  the cloud type (\<open>None\<close> for the null pointer).
\<close>

record sky_condition =
  l_cond :: string
  l_alt :: int
  l_type :: "string option"

definition SkyConditionImpl :: "string \<Rightarrow> int \<Rightarrow> string option \<Rightarrow> sky_condition" where
  "SkyConditionImpl c a t = \<lparr>l_cond = c, l_alt = a, l_type = t\<rparr>"

definition hasAltitude :: "sky_condition \<Rightarrow> bool" where
  "hasAltitude l = (l_alt l \<noteq> INTEGER_UNDEFINED)"

definition hasCloudType :: "sky_condition \<Rightarrow> bool" where
  "hasCloudType l = (l_type l \<noteq> None)"

text \<open>
  The members of \<^verbatim>\<open>Metar\<close>. \<open>m_layers\<close> is the array \<^verbatim>\<open>_layers\<close> up to
  \<^verbatim>\<open>_num_layers\<close>; \<open>m_previous_element\<close> is \<open>None\<close> for the null pointer.
\<close>

record metar =
  m_metar :: string
  m_icao :: string
  m_day :: int
  m_hour :: int
  m_min :: int
  m_wind_dir :: int
  m_wind_spd :: int
  m_gust :: int
  m_wind_speed_units :: "string option"
  m_min_wind_dir :: int
  m_max_wind_dir :: int
  m_vrb :: bool
  m_vis :: double
  m_vis_units :: "string option"
  m_vis_lt :: bool
  m_cavok :: bool
  m_layers :: "sky_condition list"
  m_vert_vis :: int
  m_temp :: int
  m_dew :: int
  m_altimeterA :: double
  m_altimeterQ :: int
  m_slp :: double
  m_ftemp :: double
  m_fdew :: double
  m_previous_element :: "string option"

text \<open>The default constructor \<^verbatim>\<open>Metar::Metar()\<close>.\<close>

definition Metar_init :: metar where
  "Metar_init =
     \<lparr>m_metar = [], m_icao = [],
      m_day = INTEGER_UNDEFINED, m_hour = INTEGER_UNDEFINED, m_min = INTEGER_UNDEFINED,
      m_wind_dir = INTEGER_UNDEFINED, m_wind_spd = INTEGER_UNDEFINED,
      m_gust = INTEGER_UNDEFINED, m_wind_speed_units = None,
      m_min_wind_dir = INTEGER_UNDEFINED, m_max_wind_dir = INTEGER_UNDEFINED,
      m_vrb = False,
      m_vis = DOUBLE_UNDEFINED, m_vis_units = None, m_vis_lt = False, m_cavok = False,
      m_layers = [],
      m_vert_vis = INTEGER_UNDEFINED,
      m_temp = INTEGER_UNDEFINED, m_dew = INTEGER_UNDEFINED,
      m_altimeterA = DOUBLE_UNDEFINED, m_altimeterQ = INTEGER_UNDEFINED,
      m_slp = DOUBLE_UNDEFINED,
      m_ftemp = DOUBLE_UNDEFINED, m_fdew = DOUBLE_UNDEFINED,
      m_previous_element = None\<rparr>"


text \<open>
  Modelled from the spec: the presence predicates are declared in \<^verbatim>\<open>metar.h\<close>, which is
  not among the sources. A field is present when it no longer holds the value the
  constructor gave it (the way \<^verbatim>\<open>SkyConditionImpl::hasAltitude\<close> tests \<^verbatim>\<open>_alt\<close>).
\<close>

definition hasMETAR :: "metar \<Rightarrow> bool" where
  "hasMETAR m = (m_metar m \<noteq> [])"

definition hasICAO :: "metar \<Rightarrow> bool" where
  "hasICAO m = (m_icao m \<noteq> [])"

definition hasDay :: "metar \<Rightarrow> bool" where
  "hasDay m = (m_day m \<noteq> INTEGER_UNDEFINED)"

definition hasHour :: "metar \<Rightarrow> bool" where
  "hasHour m = (m_hour m \<noteq> INTEGER_UNDEFINED)"

definition hasMinute :: "metar \<Rightarrow> bool" where
  "hasMinute m = (m_min m \<noteq> INTEGER_UNDEFINED)"

definition hasWindDirection :: "metar \<Rightarrow> bool" where
  "hasWindDirection m = (m_wind_dir m \<noteq> INTEGER_UNDEFINED)"

definition hasWindSpeed :: "metar \<Rightarrow> bool" where
  "hasWindSpeed m = (m_wind_spd m \<noteq> INTEGER_UNDEFINED)"

definition hasWindGust :: "metar \<Rightarrow> bool" where
  "hasWindGust m = (m_gust m \<noteq> INTEGER_UNDEFINED)"

definition hasMinWindDirection :: "metar \<Rightarrow> bool" where
  "hasMinWindDirection m = (m_min_wind_dir m \<noteq> INTEGER_UNDEFINED)"

definition hasMaxWindDirection :: "metar \<Rightarrow> bool" where
  "hasMaxWindDirection m = (m_max_wind_dir m \<noteq> INTEGER_UNDEFINED)"

definition hasVisibility :: "metar \<Rightarrow> bool" where
  "hasVisibility m = (m_vis m \<noteq> DOUBLE_UNDEFINED)"

definition hasVerticalVisibility :: "metar \<Rightarrow> bool" where
  "hasVerticalVisibility m = (m_vert_vis m \<noteq> INTEGER_UNDEFINED)"

definition hasTemperature :: "metar \<Rightarrow> bool" where
  "hasTemperature m = (m_temp m \<noteq> INTEGER_UNDEFINED)"

definition hasDewPoint :: "metar \<Rightarrow> bool" where
  "hasDewPoint m = (m_dew m \<noteq> INTEGER_UNDEFINED)"

definition hasAltimeterA :: "metar \<Rightarrow> bool" where
  "hasAltimeterA m = (m_altimeterA m \<noteq> DOUBLE_UNDEFINED)"

definition hasAltimeterQ :: "metar \<Rightarrow> bool" where
  "hasAltimeterQ m = (m_altimeterQ m \<noteq> INTEGER_UNDEFINED)"

definition hasSeaLevelPressure :: "metar \<Rightarrow> bool" where
  "hasSeaLevelPressure m = (m_slp m \<noteq> DOUBLE_UNDEFINED)"

definition hasTemperatureNA :: "metar \<Rightarrow> bool" where
  "hasTemperatureNA m = (m_ftemp m \<noteq> DOUBLE_UNDEFINED)"

definition hasDewPointNA :: "metar \<Rightarrow> bool" where
  "hasDewPointNA m = (m_fdew m \<noteq> DOUBLE_UNDEFINED)"

subsection \<open>Pattern matching\<close>

definition match_character :: "char \<Rightarrow> char \<Rightarrow> bool" where
  "match_character p c =
     (if p = CHR ''#'' then isdigit c
      else if p = CHR ''$'' then isalpha c
      else p = c)"

text \<open>
  \<^verbatim>\<open>match(pattern, str, len)\<close> compares the first \<open>len\<close> characters; its two callers
  have checked that both strings are that long.
\<close>

definition match_len :: "string \<Rightarrow> string \<Rightarrow> nat \<Rightarrow> bool" where
  "match_len pattern str len = list_all2 match_character (take len pattern) (take len str)"

definition match :: "string \<Rightarrow> string \<Rightarrow> bool" where
  "match pattern str =
     (if length pattern = length str then match_len pattern str (length pattern) else False)"

definition starts_with :: "string \<Rightarrow> string \<Rightarrow> bool" where
  "starts_with pattern str =
     (if length pattern \<le> length str then match_len pattern str (length pattern) else False)"

subsection \<open>The shape predicates\<close>

definition is_metar :: "string \<Rightarrow> bool" where
  "is_metar str = (str = ''METAR'' \<or> str = ''SPECI'')"

definition is_icao :: "string \<Rightarrow> bool" where
  "is_icao str = match ''$$$$'' str"

definition is_ot :: "string \<Rightarrow> bool" where
  "is_ot str = match ''######Z'' str"

definition is_wind :: "string \<Rightarrow> bool" where
  "is_wind str =
     (starts_with ''#####'' str
      \<or> starts_with ''#####G##'' str
      \<or> starts_with ''######G###'' str
      \<or> starts_with ''VRB'' str)"

definition is_wind_var :: "string \<Rightarrow> bool" where
  "is_wind_var str = match ''###V###'' str"

text \<open>
  In \<^verbatim>\<open>is_vis\<close> the loop runs over the positions 1 to \<open>len - 3\<close>, the characters
  between the first one and the unit.
\<close>

definition is_vis :: "string \<Rightarrow> bool" where
  "is_vis str =
     (if str = ''CAVOK'' then True
      else case strstr str VIS_UNITS_SM of
        None \<Rightarrow> match ''####'' str
      | Some p \<Rightarrow>
          let len = length str in
          if len - p = 2 then
            (if \<not> isdigit (hd str) \<and> hd str \<noteq> CHR ''M'' then False
             else list_all (\<lambda>c. isdigit c \<or> c = CHR ''/'') (drop 1 (take (len - 2) str)))
          else False)"

definition is_cloud_layer :: "string \<Rightarrow> bool" where
  "is_cloud_layer str = list_ex (\<lambda>c. starts_with c str) sky_conditions"

definition is_vert_vis :: "string \<Rightarrow> bool" where
  "is_vert_vis str = match ''VV###'' str"

definition is_temp :: "string \<Rightarrow> bool" where
  "is_temp str =
     (match ''##/##'' str
      \<or> match ''##/M##'' str
      \<or> match ''M##/M##'' str
      \<or> match ''##/'' str
      \<or> match ''M##/'' str)"

definition is_altA :: "string \<Rightarrow> bool" where
  "is_altA str = match ''A####'' str"

definition is_altQ :: "string \<Rightarrow> bool" where
  "is_altQ str = match ''Q####'' str"

definition is_slp :: "string \<Rightarrow> bool" where
  "is_slp str = match ''SLP###'' str"

definition is_tempNA :: "string \<Rightarrow> bool" where
  "is_tempNA str = match ''T########'' str"


subsection \<open>The field parsers\<close>

definition parse_metar :: "string \<Rightarrow> metar \<Rightarrow> metar" where
  "parse_metar str m = m\<lparr>m_metar := str\<rparr>"

definition parse_icao :: "string \<Rightarrow> metar \<Rightarrow> metar" where
  "parse_icao str m = m\<lparr>m_icao := str\<rparr>"

definition parse_ot :: "string \<Rightarrow> metar \<Rightarrow> metar" where
  "parse_ot str m =
     m\<lparr>m_day := atoi (take 2 str),
       m_hour := atoi (take 2 (drop 2 str)),
       m_min := atoi (drop 4 str)\<rparr>"

definition parse_wind :: "string \<Rightarrow> metar \<Rightarrow> metar" where
  "parse_wind str m =
     (let m1 = m\<lparr>m_wind_speed_units :=
                   Some (if strstr str WIND_SPEED_MPS \<noteq> None then WIND_SPEED_MPS
                         else if strstr str WIND_SPEED_KPH \<noteq> None then WIND_SPEED_KPH
                         else WIND_SPEED_KT)\<rparr>;
          m2 = (if strstr str ''VRB'' = None then m1\<lparr>m_wind_dir := atoi (take 3 str)\<rparr>
                else m1\<lparr>m_vrb := True\<rparr>);
          m3 = m2\<lparr>m_wind_spd := atoi (take 3 (drop 3 str))\<rparr>
      in case strstr str ''G'' of
           None \<Rightarrow> m3
         | Some g \<Rightarrow> m3\<lparr>m_gust := atoi (take 3 (drop (g + 1) str))\<rparr>)"

definition parse_wind_var :: "string \<Rightarrow> metar \<Rightarrow> metar" where
  "parse_wind_var str m =
     m\<lparr>m_min_wind_dir := atoi (take 3 str), m_max_wind_dir := atoi (drop 4 str)\<rparr>"

text \<open>
  In \<^verbatim>\<open>parse_vis\<close>, \<open>u\<close> and \<open>p\<close> are the offsets of the unit and of the slash. A token
  that passed \<open>is_vis\<close> has its slashes before the unit, so \<open>u - p\<close> is positive.
\<close>

definition parse_vis :: "string \<Rightarrow> metar \<Rightarrow> metar" where
  "parse_vis str m =
     (if str = ''CAVOK'' then m\<lparr>m_cavok := True\<rparr>
      else case strstr str VIS_UNITS_SM of
        None \<Rightarrow> m\<lparr>m_vis := atof str, m_vis_units := Some VIS_UNITS_M\<rparr>
      | Some u \<Rightarrow>
          (case strstr str ''/'' of
             None \<Rightarrow> m\<lparr>m_vis := atof str, m_vis_units := Some VIS_UNITS_SM\<rparr>
           | Some p \<Rightarrow>
               let m1 = (if hd str = CHR ''M'' then m\<lparr>m_vis_lt := True\<rparr> else m);
                   val = (if hd str = CHR ''M'' then take p (drop 1 str) else take p str);
                   numerator = atof val;
                   denominator = atof (take (u - p) (drop (p + 1) str));
                   m2 = m1\<lparr>m_vis := ddiv numerator denominator\<rparr>;
                   m3 = (case m_previous_element m of
                           None \<Rightarrow> m2
                         | Some prev \<Rightarrow>
                             if match ''#'' prev
                             then m2\<lparr>m_vis := dadd (m_vis m2) (atof prev)\<rparr>
                             else m2)
               in m3\<lparr>m_vis_units := Some VIS_UNITS_SM\<rparr>))"

text \<open>
  \<^verbatim>\<open>parse_cloud_layer\<close> reads \<^verbatim>\<open>str[6]\<close> whatever the length of the token, so for a
  token of four or five characters it looks behind the terminator. It therefore takes,
  besides the token, the memory at the pointer: \<open>p i\<close> is the byte \<^verbatim>\<open>str[i]\<close>.
  \<open>str_equal_at p off t\<close> is \<^verbatim>\<open>!strcmp(str + off, t)\<close>.
\<close>

definition str_equal_at :: "(nat \<Rightarrow> char) \<Rightarrow> nat \<Rightarrow> string \<Rightarrow> bool" where
  "str_equal_at p off t = list_all2 (\<lambda>j c. p (off + j) = c) [0..<Suc (length t)] (t @ [NUL])"

definition add_layer :: "sky_condition \<Rightarrow> metar \<Rightarrow> metar" where
  "add_layer l m = m\<lparr>m_layers := m_layers m @ [l]\<rparr>"

text \<open>The body of the loop of \<^verbatim>\<open>parse_cloud_layer\<close>, for the sky condition \<open>c\<close>.\<close>

definition cloud_layer_case :: "string \<Rightarrow> (nat \<Rightarrow> char) \<Rightarrow> metar \<Rightarrow> string \<Rightarrow> metar" where
  "cloud_layer_case str p m c =
     (if starts_with c str then
        (if p 3 = NUL then add_layer (SkyConditionImpl c INTEGER_UNDEFINED None) m
         else if p 6 = NUL then
           add_layer (SkyConditionImpl c (atoi (drop 3 str) * 100) None) m
         else
           add_layer (SkyConditionImpl c (atoi (drop 3 str) * 100)
                        (find (str_equal_at p 6) cloud_types)) m)
      else m)"

definition parse_cloud_layer :: "string \<Rightarrow> (nat \<Rightarrow> char) \<Rightarrow> metar \<Rightarrow> metar" where
  "parse_cloud_layer str p m = foldl (cloud_layer_case str p) m sky_conditions"

definition parse_vert_vis :: "string \<Rightarrow> metar \<Rightarrow> metar" where
  "parse_vert_vis str m = m\<lparr>m_vert_vis := atoi (drop 2 str) * 100\<rparr>"

definition temp :: "string \<Rightarrow> int" where
  "temp val =
     atoi (case val of [] \<Rightarrow> [] | c # cs \<Rightarrow> if c = CHR ''M'' then CHR ''-'' # cs else c # cs)"

text \<open>A token that passed \<open>is_temp\<close> has a slash; the first case below is not reached.\<close>

definition parse_temp :: "string \<Rightarrow> metar \<Rightarrow> metar" where
  "parse_temp str m =
     (case strstr str ''/'' of
        None \<Rightarrow> m
      | Some p \<Rightarrow>
          let m1 = m\<lparr>m_temp := temp (take p str)\<rparr>
          in if drop (p + 1) str \<noteq> [] then m1\<lparr>m_dew := temp (drop (p + 1) str)\<rparr> else m1)"

definition parse_alt :: "string \<Rightarrow> metar \<Rightarrow> metar" where
  "parse_alt str m =
     (let val = atoi (drop 1 str)
      in if hd str = CHR ''Q'' then m\<lparr>m_altimeterQ := val\<rparr>
         else m\<lparr>m_altimeterA := ddiv (Fin (of_int val)) (Fin 100)\<rparr>)"

definition parse_slp :: "string \<Rightarrow> metar \<Rightarrow> metar" where
  "parse_slp str m = m\<lparr>m_slp := dadd (ddiv (atof (drop 3 str)) (Fin 10)) (Fin 1000)\<rparr>"

definition tempNA :: "string \<Rightarrow> double" where
  "tempNA val =
     ddiv (atof (case val of [] \<Rightarrow> [] | c # cs \<Rightarrow>
                   if c = CHR ''1'' then CHR ''-'' # cs else c # cs))
          (Fin 10)"

definition parse_tempNA :: "string \<Rightarrow> metar \<Rightarrow> metar" where
  "parse_tempNA str m =
     m\<lparr>m_ftemp := tempNA (take 4 (drop 1 str)), m_fdew := tempNA (drop 5 str)\<rparr>"

subsection \<open>The token loop\<close>

text \<open>
  \<^verbatim>\<open>strtok\<close> with the delimiter \<^verbatim>\<open>" "\<close>: \<open>token_begin s\<close> skips the leading blanks,
  the token runs to the next blank, which \<^verbatim>\<open>strtok\<close> overwrites with NUL, and the search
  resumes behind it. \<open>strtok_all s\<close> lists the tokens in order, each with the bytes of
  the string's buffer behind the token's terminator: the rest of the string and its NUL,
  or nothing when the token's terminator is the string's own.
\<close>

definition token_begin :: "string \<Rightarrow> string" where
  "token_begin s = dropWhile (\<lambda>c. c = CHR '' '') s"

definition token_end :: "string \<Rightarrow> string" where
  "token_end s = dropWhile (\<lambda>c. c \<noteq> CHR '' '') (token_begin s)"

function strtok_all :: "string \<Rightarrow> (string \<times> string) list" where
  "strtok_all s =
     (if token_begin s = [] then []
      else if token_end s = [] then [(takeWhile (\<lambda>c. c \<noteq> CHR '' '') (token_begin s), [])]
      else (takeWhile (\<lambda>c. c \<noteq> CHR '' '') (token_begin s), tl (token_end s) @ [NUL])
             # strtok_all (tl (token_end s)))"
  by pat_completeness auto
termination
proof (relation "measure length")
  show "wf (measure length)" by simp
next
  fix s :: string
  assume "token_end s \<noteq> []"
  moreover have "length (token_end s) \<le> length s"
    unfolding token_end_def token_begin_def
    by (meson length_dropWhile_le order_trans)
  ultimately show "(tl (token_end s), s) \<in> measure length"
    by (cases "token_end s") auto
qed

declare strtok_all.simps [simp del]

text \<open>
  The memory at a token: its characters, its terminator, the bytes of the buffer behind
  it, and behind the buffer whatever the caller's memory holds there, \<open>mem\<close>.
\<close>

definition token_memory :: "(nat \<Rightarrow> char) \<Rightarrow> string \<Rightarrow> string \<Rightarrow> nat \<Rightarrow> char" where
  "token_memory mem el behind i =
     (let bytes = el @ NUL # behind
      in if i < length bytes then bytes ! i else mem (i - length bytes))"

text \<open>The if / else-if chain of \<^verbatim>\<open>Metar::parse\<close> for the token \<open>el\<close>.\<close>

definition parse_element :: "(nat \<Rightarrow> char) \<Rightarrow> string \<Rightarrow> metar \<Rightarrow> metar" where
  "parse_element p el m =
     (if \<not> hasMETAR m \<and> is_metar el then parse_metar el m
      else if \<not> hasICAO m \<and> is_icao el then parse_icao el m
      else if \<not> hasMinute m \<and> is_ot el then parse_ot el m
      else if \<not> hasWindSpeed m \<and> is_wind el then parse_wind el m
      else if \<not> hasMinWindDirection m \<and> is_wind_var el then parse_wind_var el m
      else if \<not> hasVisibility m \<and> \<not> m_cavok m \<and> is_vis el then parse_vis el m
      else if length (m_layers m) < MAX_CLOUD_LAYERS \<and> is_cloud_layer el
        then parse_cloud_layer el p m
      else if \<not> hasVerticalVisibility m \<and> is_vert_vis el then parse_vert_vis el m
      else if \<not> hasTemperature m \<and> is_temp el then parse_temp el m
      else if \<not> hasAltimeterA m \<and> is_altA el then parse_alt el m
      else if \<not> hasAltimeterQ m \<and> is_altQ el then parse_alt el m
      else if \<not> hasSeaLevelPressure m \<and> is_slp el then parse_slp el m
      else if \<not> hasTemperatureNA m \<and> is_tempNA el then parse_tempNA el m
      else m)"

text \<open>One turn of the loop: the chain, then \<^verbatim>\<open>_previous_element = el\<close>.\<close>

definition parse_step :: "(nat \<Rightarrow> char) \<Rightarrow> metar \<Rightarrow> string \<times> string \<Rightarrow> metar" where
  "parse_step mem m tk =
     (parse_element (token_memory mem (fst tk) (snd tk)) (fst tk) m)
       \<lparr>m_previous_element := Some (fst tk)\<rparr>"

definition parse :: "(nat \<Rightarrow> char) \<Rightarrow> string \<Rightarrow> metar \<Rightarrow> metar" where
  "parse mem metar_str m = foldl (parse_step mem) m (strtok_all metar_str)"

text \<open>
  The constructor \<^verbatim>\<open>Metar::Metar(metar_str)\<close>. Its argument is a C string, which ends at
  its first NUL; \<open>mem\<close> is the memory behind that NUL.
\<close>

definition Metar :: "(nat \<Rightarrow> char) \<Rightarrow> string \<Rightarrow> metar" where
  "Metar mem metar_str = parse mem (takeWhile (\<lambda>c. c \<noteq> NUL) metar_str) Metar_init"

text \<open>
  The tokens that the constructor's loop sees, with the bytes behind each of them, and
  the tokens alone.
\<close>

definition token_list :: "string \<Rightarrow> (string \<times> string) list" where
  "token_list metar_str = strtok_all (takeWhile (\<lambda>c. c \<noteq> NUL) metar_str)"

definition tokens :: "string \<Rightarrow> string list" where
  "tokens metar_str = map fst (strtok_all (takeWhile (\<lambda>c. c \<noteq> NUL) metar_str))"


text \<open>A memory that holds NUL everywhere, for the concrete runs below.\<close>

definition zero_memory :: "nat \<Rightarrow> char" where
  "zero_memory i = NUL"

text \<open>
  The same tokens read character by character, with the token under construction kept
  in reverse. This form is only used to reason about \<open>strtok_all\<close> and to run it.
\<close>

fun tokenize_from :: "string \<Rightarrow> string \<Rightarrow> (string \<times> string) list" where
  "tokenize_from acc [] = (if acc = [] then [] else [(rev acc, [])])"
| "tokenize_from acc (c # cs) =
     (if c = CHR '' '' then
        (if acc = [] then tokenize_from [] cs else (rev acc, cs @ [NUL]) # tokenize_from [] cs)
      else tokenize_from (c # acc) cs)"

text \<open>The list without its first element that satisfies \<open>P\<close>.\<close>

fun skip_first :: "('a \<Rightarrow> bool) \<Rightarrow> 'a list \<Rightarrow> 'a list" where
  "skip_first P [] = []"
| "skip_first P (x # xs) = (if P x then xs else x # skip_first P xs)"

text \<open>
  The layers that a token gives when it reaches \<^verbatim>\<open>parse_cloud_layer\<close>: one layer for a
  token that begins with a sky condition, none for any other token.
\<close>

definition layers_of :: "(nat \<Rightarrow> char) \<Rightarrow> string \<times> string \<Rightarrow> sky_condition list" where
  "layers_of mem tk =
     m_layers (parse_cloud_layer (fst tk) (token_memory mem (fst tk) (snd tk)) Metar_init)"

text \<open>
  The object after the loop has gone through the tokens \<open>tks\<close>, a beginning of the
  tokens of the input.
\<close>

definition report_after :: "(nat \<Rightarrow> char) \<Rightarrow> (string \<times> string) list \<Rightarrow> metar" where
  "report_after mem tks = foldl (parse_step mem) Metar_init tks"

text \<open>
  The guarded branches of the chain as a table: for each of them the presence test that
  guards it, its shape predicate, its parser, and the members that the parser writes
  (\<open>keep f m\<close> is \<open>m\<close> with every other member reset).
\<close>

datatype field =
  F_METAR | F_ICAO | F_OT | F_WIND | F_WIND_VAR | F_VIS | F_VERT_VIS | F_TEMP
  | F_ALT_A | F_ALT_Q | F_SLP | F_TEMP_NA

fun present :: "field \<Rightarrow> metar \<Rightarrow> bool" where
  "present F_METAR m = hasMETAR m"
| "present F_ICAO m = hasICAO m"
| "present F_OT m = hasMinute m"
| "present F_WIND m = hasWindSpeed m"
| "present F_WIND_VAR m = hasMinWindDirection m"
| "present F_VIS m = hasVisibility m"
| "present F_VERT_VIS m = hasVerticalVisibility m"
| "present F_TEMP m = hasTemperature m"
| "present F_ALT_A m = hasAltimeterA m"
| "present F_ALT_Q m = hasAltimeterQ m"
| "present F_SLP m = hasSeaLevelPressure m"
| "present F_TEMP_NA m = hasTemperatureNA m"

fun shape :: "field \<Rightarrow> string \<Rightarrow> bool" where
  "shape F_METAR el = is_metar el"
| "shape F_ICAO el = is_icao el"
| "shape F_OT el = is_ot el"
| "shape F_WIND el = is_wind el"
| "shape F_WIND_VAR el = is_wind_var el"
| "shape F_VIS el = is_vis el"
| "shape F_VERT_VIS el = is_vert_vis el"
| "shape F_TEMP el = is_temp el"
| "shape F_ALT_A el = is_altA el"
| "shape F_ALT_Q el = is_altQ el"
| "shape F_SLP el = is_slp el"
| "shape F_TEMP_NA el = is_tempNA el"

fun parser :: "field \<Rightarrow> string \<Rightarrow> metar \<Rightarrow> metar" where
  "parser F_METAR = parse_metar"
| "parser F_ICAO = parse_icao"
| "parser F_OT = parse_ot"
| "parser F_WIND = parse_wind"
| "parser F_WIND_VAR = parse_wind_var"
| "parser F_VIS = parse_vis"
| "parser F_VERT_VIS = parse_vert_vis"
| "parser F_TEMP = parse_temp"
| "parser F_ALT_A = parse_alt"
| "parser F_ALT_Q = parse_alt"
| "parser F_SLP = parse_slp"
| "parser F_TEMP_NA = parse_tempNA"

fun keep :: "field \<Rightarrow> metar \<Rightarrow> metar" where
  "keep F_METAR m = Metar_init\<lparr>m_metar := m_metar m\<rparr>"
| "keep F_ICAO m = Metar_init\<lparr>m_icao := m_icao m\<rparr>"
| "keep F_OT m = Metar_init\<lparr>m_day := m_day m, m_hour := m_hour m, m_min := m_min m\<rparr>"
| "keep F_WIND m =
     Metar_init\<lparr>m_wind_dir := m_wind_dir m, m_wind_spd := m_wind_spd m, m_gust := m_gust m,
       m_wind_speed_units := m_wind_speed_units m, m_vrb := m_vrb m\<rparr>"
| "keep F_WIND_VAR m =
     Metar_init\<lparr>m_min_wind_dir := m_min_wind_dir m, m_max_wind_dir := m_max_wind_dir m\<rparr>"
| "keep F_VIS m =
     Metar_init\<lparr>m_vis := m_vis m, m_vis_units := m_vis_units m, m_vis_lt := m_vis_lt m,
       m_cavok := m_cavok m\<rparr>"
| "keep F_VERT_VIS m = Metar_init\<lparr>m_vert_vis := m_vert_vis m\<rparr>"
| "keep F_TEMP m = Metar_init\<lparr>m_temp := m_temp m, m_dew := m_dew m\<rparr>"
| "keep F_ALT_A m = Metar_init\<lparr>m_altimeterA := m_altimeterA m\<rparr>"
| "keep F_ALT_Q m = Metar_init\<lparr>m_altimeterQ := m_altimeterQ m\<rparr>"
| "keep F_SLP m = Metar_init\<lparr>m_slp := m_slp m\<rparr>"
| "keep F_TEMP_NA m = Metar_init\<lparr>m_ftemp := m_ftemp m, m_fdew := m_fdew m\<rparr>"

section \<open>The phenomena decoder\<close>

text \<open>
  Modelled from the spec: the implementation of the phenomena decoder
  (\<^verbatim>\<open>Phenom::Create\<close>, declared in \<^verbatim>\<open>src/include/Phenom.h\<close>) and its call from the report
  decoder are not among the sources; \<^verbatim>\<open>metar.cpp\<close> has no branch for phenomena. The
  kinds are those of the enumeration in \<^verbatim>\<open>Phenom.h\<close> with their two-letter codes, and the
  two kinds the spec adds: the combination sleet (rain and snow) and the thunderstorm code.
  The decoder follows section 4.2 of the spec: a leading \<^verbatim>\<open>+\<close> or \<^verbatim>\<open>-\<close> gives the
  intensity, the qualifiers are stripped in a fixed order, and the two-letter codes that
  remain are looked up in the vocabulary, unknown codes being skipped and rain followed by
  snow giving one sleet occurrence.
\<close>

datatype phenom =
  MIST | DUST_STORM | DUST | DRIZZLE | FUNNEL_CLOUD | FOG | SMOKE | HAIL | SMALL_HAIL | HAZE
  | ICE_CRYSTALS | ICE_PELLETS | DUST_SAND_WHORLS | SPRAY | RAIN | SAND | SNOW_GRAINS | SHOWER
  | SNOW | SQUALLS | SAND_STORM | UNKNOWN_PRECIP | VOLCANIC_ASH | SLEET | THUNDER_STORM

datatype intensity = LIGHT | NORMAL | HEAVY

record phenomenon_occurrence =
  p_kind :: phenom
  p_intensity :: intensity
  p_blowing :: bool
  p_freezing :: bool
  p_drifting :: bool
  p_vicinity :: bool
  p_shower :: bool
  p_partial :: bool
  p_shallow :: bool
  p_patches :: bool
  p_thunderstorm :: bool

definition phenom_vocabulary :: "(string \<times> phenom) list" where
  "phenom_vocabulary =
     [(''BR'', MIST), (''DS'', DUST_STORM), (''DU'', DUST), (''DZ'', DRIZZLE),
      (''FC'', FUNNEL_CLOUD), (''FG'', FOG), (''FU'', SMOKE), (''GR'', HAIL),
      (''GS'', SMALL_HAIL), (''HZ'', HAZE), (''IC'', ICE_CRYSTALS), (''PE'', ICE_PELLETS),
      (''PO'', DUST_SAND_WHORLS), (''PY'', SPRAY), (''RA'', RAIN), (''SA'', SAND),
      (''SG'', SNOW_GRAINS), (''SH'', SHOWER), (''SN'', SNOW), (''SQ'', SQUALLS),
      (''SS'', SAND_STORM), (''UP'', UNKNOWN_PRECIP), (''VA'', VOLCANIC_ASH)]"

text \<open>The qualifiers in the order in which they are stripped, each with its flag.\<close>

definition phenom_qualifiers ::
  "(string \<times> (phenomenon_occurrence \<Rightarrow> phenomenon_occurrence)) list" where
  "phenom_qualifiers =
     [(''VC'', p_vicinity_update (\<lambda>_. True)),
      (''MI'', p_shallow_update (\<lambda>_. True)),
      (''PR'', p_partial_update (\<lambda>_. True)),
      (''BC'', p_patches_update (\<lambda>_. True)),
      (''DR'', p_drifting_update (\<lambda>_. True)),
      (''BL'', p_blowing_update (\<lambda>_. True)),
      (''TS'', p_thunderstorm_update (\<lambda>_. True)),
      (''FZ'', p_freezing_update (\<lambda>_. True)),
      (''SH'', p_shower_update (\<lambda>_. True))]"

definition phenom_intensity :: "string \<Rightarrow> intensity \<times> string" where
  "phenom_intensity str =
     (case str of
        [] \<Rightarrow> (NORMAL, [])
      | c # cs \<Rightarrow>
          if c = CHR ''+'' then (HEAVY, cs)
          else if c = CHR ''-'' then (LIGHT, cs)
          else (NORMAL, c # cs))"

text \<open>
  One pass over the qualifiers: a qualifier at the head of the code is removed and its
  flag set, as long as a code is left behind it.
\<close>

definition strip_qualifier ::
  "string \<times> phenomenon_occurrence \<Rightarrow>
   string \<times> (phenomenon_occurrence \<Rightarrow> phenomenon_occurrence) \<Rightarrow>
   string \<times> phenomenon_occurrence" where
  "strip_qualifier st q =
     (if take 2 (fst st) = fst q \<and> drop 2 (fst st) \<noteq> []
      then (drop 2 (fst st), snd q (snd st)) else st)"

fun phenom_codes :: "string \<Rightarrow> phenom list" where
  "phenom_codes (a # b # rest) =
     (case map_of phenom_vocabulary [a, b] of
        None \<Rightarrow> phenom_codes rest
      | Some k \<Rightarrow> k # phenom_codes rest)"
| "phenom_codes _ = []"

fun phenom_combine :: "phenom list \<Rightarrow> phenom list" where
  "phenom_combine (k # k' # ks) =
     (if k = RAIN \<and> k' = SNOW then SLEET # phenom_combine ks
      else k # phenom_combine (k' # ks))"
| "phenom_combine ks = ks"

definition phenom_decode :: "string \<Rightarrow> phenomenon_occurrence list" where
  "phenom_decode str =
     (let (i, code) = phenom_intensity str;
          blank = \<lparr>p_kind = THUNDER_STORM, p_intensity = i,
                   p_blowing = False, p_freezing = False, p_drifting = False,
                   p_vicinity = False, p_shower = False, p_partial = False,
                   p_shallow = False, p_patches = False, p_thunderstorm = False\<rparr>;
          (core, flags) = foldl strip_qualifier (code, blank) phenom_qualifiers
      in if core = ''TS'' then [flags]
         else map (\<lambda>k. flags\<lparr>p_kind := k\<rparr>) (phenom_combine (phenom_codes core)))"


section \<open>Basic facts\<close>

subsection \<open>Patterns, character by character\<close>

lemma match_Nil [simp]: "match [] str = (str = [])"
  by (auto simp: match_def match_len_def)

lemma match_Cons [simp]:
  "match (p # ps) str =
     (case str of [] \<Rightarrow> False | c # cs \<Rightarrow> match_character p c \<and> match ps cs)"
  by (cases str) (auto simp: match_def match_len_def)

lemma starts_with_Nil [simp]: "starts_with [] str = True"
  by (simp add: starts_with_def match_len_def)

lemma starts_with_Cons [simp]:
  "starts_with (p # ps) str =
     (case str of [] \<Rightarrow> False | c # cs \<Rightarrow> match_character p c \<and> starts_with ps cs)"
  by (cases str) (auto simp: starts_with_def match_len_def)

subsection \<open>Tokens\<close>

lemma strtok_all_Nil: "strtok_all [] = []"
  by (subst strtok_all.simps) (simp add: token_begin_def)

lemma strtok_all_blank: "strtok_all (CHR '' '' # s) = strtok_all s"
proof -
  have b: "token_begin (CHR '' '' # s) = token_begin s"
    by (simp add: token_begin_def)
  have e: "token_end (CHR '' '' # s) = token_end s"
    by (simp add: token_end_def b)
  show ?thesis
    unfolding strtok_all.simps[of "CHR '' '' # s"] b e
    by (rule strtok_all.simps[of s, symmetric])
qed

lemma takeWhile_token:
  "CHR '' '' \<notin> set el \<Longrightarrow> takeWhile (\<lambda>c. c \<noteq> CHR '' '') (el @ CHR '' '' # rest) = el"
  by (induction el) auto

lemma dropWhile_token:
  "CHR '' '' \<notin> set el \<Longrightarrow>
     dropWhile (\<lambda>c. c \<noteq> CHR '' '') (el @ CHR '' '' # rest) = CHR '' '' # rest"
  by (induction el) auto

lemma token_begin_token:
  "el \<noteq> [] \<Longrightarrow> CHR '' '' \<notin> set el \<Longrightarrow> token_begin (el @ r) = el @ r"
  by (cases el) (auto simp: token_begin_def)

lemma strtok_all_last:
  assumes "el \<noteq> []" "CHR '' '' \<notin> set el"
  shows "strtok_all el = [(el, [])]"
proof -
  have b: "token_begin el = el"
    using token_begin_token[OF assms, of "[]"] by simp
  have t: "takeWhile (\<lambda>c. c \<noteq> CHR '' '') el = el"
    using assms(2) by (induction el) auto
  have e: "token_end el = []"
    unfolding token_end_def b using assms(2) by (induction el) auto
  show ?thesis
    unfolding strtok_all.simps[of el] b e t using assms(1) by simp
qed

lemma strtok_all_token:
  assumes "el \<noteq> []" "CHR '' '' \<notin> set el"
  shows "strtok_all (el @ CHR '' '' # rest) = (el, rest @ [NUL]) # strtok_all rest"
proof -
  have b: "token_begin (el @ CHR '' '' # rest) = el @ CHR '' '' # rest"
    by (rule token_begin_token[OF assms])
  have e: "token_end (el @ CHR '' '' # rest) = CHR '' '' # rest"
    unfolding token_end_def b by (rule dropWhile_token[OF assms(2)])
  show ?thesis
    unfolding strtok_all.simps[of "el @ CHR '' '' # rest"] b e takeWhile_token[OF assms(2)]
    using assms(1) by simp
qed

lemma tokenize_from_eq:
  "CHR '' '' \<notin> set acc \<Longrightarrow> tokenize_from acc s = strtok_all (rev acc @ s)"
proof (induction s arbitrary: acc)
  case Nil
  then show ?case
    using strtok_all_last[of "rev acc"]
    by (cases "acc = []") (simp_all add: strtok_all_Nil)
next
  case (Cons c s)
  show ?case
  proof (cases "c = CHR '' ''")
    case True
    then show ?thesis
      using Cons.prems strtok_all_token[of "rev acc" s] Cons.IH[of "[]"]
      by (cases "acc = []") (simp_all add: strtok_all_blank)
  next
    case False
    then show ?thesis using Cons.prems Cons.IH[of "c # acc"] by simp
  qed
qed

lemma strtok_all_code: "strtok_all s = tokenize_from [] s"
  by (simp add: tokenize_from_eq)

subsection \<open>Collections of definitions, for running the decoder on a given string\<close>

lemmas shape_defs = is_metar_def is_icao_def is_ot_def is_wind_def is_wind_var_def is_vis_def
  is_cloud_layer_def is_vert_vis_def is_temp_def is_altA_def is_altQ_def is_slp_def is_tempNA_def
  match_character_def isdigit_def isalpha_def isspace_def

lemmas has_defs = hasMETAR_def hasICAO_def hasMinute_def hasWindSpeed_def hasMinWindDirection_def
  hasVisibility_def hasVerticalVisibility_def hasTemperature_def hasAltimeterA_def
  hasAltimeterQ_def hasSeaLevelPressure_def hasTemperatureNA_def

lemmas parser_defs = parse_metar_def parse_icao_def parse_ot_def parse_wind_def parse_wind_var_def
  parse_vis_def parse_cloud_layer_def cloud_layer_case_def add_layer_def str_equal_at_def
  parse_vert_vis_def parse_temp_def temp_def parse_alt_def parse_slp_def parse_tempNA_def
  tempNA_def atoi_def atof_def digit_value_def token_memory_def SkyConditionImpl_def

lemmas const_defs = sky_conditions_def cloud_types_def MAX_CLOUD_LAYERS_def WIND_SPEED_KT_def
  WIND_SPEED_MPS_def WIND_SPEED_KPH_def VIS_UNITS_M_def VIS_UNITS_SM_def NUL_def

lemmas run_defs = Metar_def parse_def strtok_all_code parse_step_def parse_element_def
  shape_defs has_defs parser_defs const_defs Metar_init_def INTEGER_UNDEFINED_def
  DOUBLE_UNDEFINED_def


subsection \<open>Characters\<close>

lemma isdigit_Char:
  "isdigit (Char b0 b1 b2 b3 b4 b5 b6 b7) = (Char b0 b1 b2 b3 b4 b5 b6 b7 \<in> set ''0123456789'')"
  by (simp add: isdigit_def)

lemma isalpha_Char:
  "isalpha (Char b0 b1 b2 b3 b4 b5 b6 b7) =
     (Char b0 b1 b2 b3 b4 b5 b6 b7
        \<in> set ''ABCDEFGHIJKLMNOPQRSTUVWXYZabcdefghijklmnopqrstuvwxyz'')"
  by (simp add: isalpha_def)

lemma isspace_Char:
  "isspace (Char b0 b1 b2 b3 b4 b5 b6 b7) =
     (Char b0 b1 b2 b3 b4 b5 b6 b7
        \<in> set [CHR '' '', CHR 0x09, CHR 0x0A, CHR 0x0B, CHR 0x0C, CHR 0x0D])"
  by (simp add: isspace_def)

lemma digit_neq:
  "isdigit c \<Longrightarrow> \<not> isdigit d \<Longrightarrow> (c = d) = False"
  "isdigit c \<Longrightarrow> \<not> isdigit d \<Longrightarrow> (d = c) = False"
  by auto

lemma alpha_neq:
  "isalpha c \<Longrightarrow> \<not> isalpha d \<Longrightarrow> (c = d) = False"
  "isalpha c \<Longrightarrow> \<not> isalpha d \<Longrightarrow> (d = c) = False"
  by auto

lemma digit_not_alpha: "isdigit c \<Longrightarrow> \<not> isalpha c"
  by (auto simp: isdigit_def isalpha_def)

lemma digit_not_space: "isdigit c \<Longrightarrow> \<not> isspace c"
  by (auto simp: isdigit_def isspace_def)

lemma alpha_not_digit: "isalpha c \<Longrightarrow> \<not> isdigit c"
  by (auto simp: isdigit_def isalpha_def)

lemma digit_value_range: "isdigit c \<Longrightarrow> 0 \<le> digit_value c \<and> digit_value c \<le> 9"
  by (auto simp: isdigit_def digit_value_def)

lemmas char_facts = isdigit_Char isalpha_Char isspace_Char digit_neq alpha_neq
  digit_not_alpha digit_not_space alpha_not_digit

lemma atoi_digit: "isdigit a \<Longrightarrow> atoi (a # cs) = read_digits 0 (a # cs)"
  by (simp add: atoi_def char_facts)

subsection \<open>The loop as a fold\<close>

lemma foldl_keep:
  assumes "\<And>m tk. H (g m) \<Longrightarrow> g (step m tk) = g m"
  shows "H (g m) \<Longrightarrow> g (foldl step m tks) = g m"
  by (induction tks arbitrary: m) (simp_all add: assms)

lemma foldl_first:
  assumes step: "\<And>m tk. g (step m tk) = (if \<not> H (g m) \<and> S (fst tk) then D (fst tk) (g m) else g m)"
    and D: "\<And>t v. S t \<Longrightarrow> H (D t v)"
  shows "\<not> H (g m) \<Longrightarrow>
     g (foldl step m tks) = (case find S (map fst tks) of None \<Rightarrow> g m | Some t \<Rightarrow> D t (g m))"
proof (induction tks arbitrary: m)
  case Nil
  show ?case by simp
next
  case (Cons tk tks)
  show ?case
  proof (cases "S (fst tk)")
    case True
    have "g (step m tk) = D (fst tk) (g m)"
      using True Cons.prems by (simp add: step)
    moreover have "H (g (step m tk))"
      using True calculation by (simp add: D)
    ultimately show ?thesis
      using True foldl_keep[of H g step "step m tk" tks] by (simp add: step)
  next
    case False
    have "g (step m tk) = g m"
      using False by (simp add: step)
    then show ?thesis
      using False Cons.IH[of "step m tk"] Cons.prems by (simp split: option.split)
  qed
qed


subsection \<open>What each parser leaves alone\<close>

lemma cloud_layer_case_only_layers:
  "\<exists>ls. cloud_layer_case el p m c = m\<lparr>m_layers := ls\<rparr>"
proof -
  have "m = m\<lparr>m_layers := m_layers m\<rparr>" by simp
  then show ?thesis
    unfolding cloud_layer_case_def add_layer_def by (metis (full_types))
qed

lemma parse_cloud_layer_only_layers:
  "\<exists>ls. foldl (cloud_layer_case el p) m cs = m\<lparr>m_layers := ls\<rparr>"
proof (induction cs arbitrary: m)
  case Nil
  have "m = m\<lparr>m_layers := m_layers m\<rparr>" by simp
  then show ?case by (metis foldl_Nil)
next
  case (Cons c cs)
  obtain ls where 1: "cloud_layer_case el p m c = m\<lparr>m_layers := ls\<rparr>"
    using cloud_layer_case_only_layers by blast
  obtain ls' where 2: "foldl (cloud_layer_case el p) (m\<lparr>m_layers := ls\<rparr>) cs = m\<lparr>m_layers := ls, m_layers := ls'\<rparr>"
    using Cons.IH[of "m\<lparr>m_layers := ls\<rparr>"] by blast
  show ?case
    using 1 2 by (intro exI[of _ ls']) simp
qed

lemma parse_cloud_layer_frame:
  "m_metar (parse_cloud_layer el p m) = m_metar m"
  "m_icao (parse_cloud_layer el p m) = m_icao m"
  "m_day (parse_cloud_layer el p m) = m_day m"
  "m_hour (parse_cloud_layer el p m) = m_hour m"
  "m_min (parse_cloud_layer el p m) = m_min m"
  "m_wind_dir (parse_cloud_layer el p m) = m_wind_dir m"
  "m_wind_spd (parse_cloud_layer el p m) = m_wind_spd m"
  "m_gust (parse_cloud_layer el p m) = m_gust m"
  "m_wind_speed_units (parse_cloud_layer el p m) = m_wind_speed_units m"
  "m_min_wind_dir (parse_cloud_layer el p m) = m_min_wind_dir m"
  "m_max_wind_dir (parse_cloud_layer el p m) = m_max_wind_dir m"
  "m_vrb (parse_cloud_layer el p m) = m_vrb m"
  "m_vis (parse_cloud_layer el p m) = m_vis m"
  "m_vis_units (parse_cloud_layer el p m) = m_vis_units m"
  "m_vis_lt (parse_cloud_layer el p m) = m_vis_lt m"
  "m_cavok (parse_cloud_layer el p m) = m_cavok m"
  "m_vert_vis (parse_cloud_layer el p m) = m_vert_vis m"
  "m_temp (parse_cloud_layer el p m) = m_temp m"
  "m_dew (parse_cloud_layer el p m) = m_dew m"
  "m_altimeterA (parse_cloud_layer el p m) = m_altimeterA m"
  "m_altimeterQ (parse_cloud_layer el p m) = m_altimeterQ m"
  "m_slp (parse_cloud_layer el p m) = m_slp m"
  "m_ftemp (parse_cloud_layer el p m) = m_ftemp m"
  "m_fdew (parse_cloud_layer el p m) = m_fdew m"
  "m_previous_element (parse_cloud_layer el p m) = m_previous_element m"
proof -
  obtain ls where "parse_cloud_layer el p m = m\<lparr>m_layers := ls\<rparr>"
    unfolding parse_cloud_layer_def using parse_cloud_layer_only_layers by blast
  then show
    "m_metar (parse_cloud_layer el p m) = m_metar m"
    "m_icao (parse_cloud_layer el p m) = m_icao m"
    "m_day (parse_cloud_layer el p m) = m_day m"
    "m_hour (parse_cloud_layer el p m) = m_hour m"
    "m_min (parse_cloud_layer el p m) = m_min m"
    "m_wind_dir (parse_cloud_layer el p m) = m_wind_dir m"
    "m_wind_spd (parse_cloud_layer el p m) = m_wind_spd m"
    "m_gust (parse_cloud_layer el p m) = m_gust m"
    "m_wind_speed_units (parse_cloud_layer el p m) = m_wind_speed_units m"
    "m_min_wind_dir (parse_cloud_layer el p m) = m_min_wind_dir m"
    "m_max_wind_dir (parse_cloud_layer el p m) = m_max_wind_dir m"
    "m_vrb (parse_cloud_layer el p m) = m_vrb m"
    "m_vis (parse_cloud_layer el p m) = m_vis m"
    "m_vis_units (parse_cloud_layer el p m) = m_vis_units m"
    "m_vis_lt (parse_cloud_layer el p m) = m_vis_lt m"
    "m_cavok (parse_cloud_layer el p m) = m_cavok m"
    "m_vert_vis (parse_cloud_layer el p m) = m_vert_vis m"
    "m_temp (parse_cloud_layer el p m) = m_temp m"
    "m_dew (parse_cloud_layer el p m) = m_dew m"
    "m_altimeterA (parse_cloud_layer el p m) = m_altimeterA m"
    "m_altimeterQ (parse_cloud_layer el p m) = m_altimeterQ m"
    "m_slp (parse_cloud_layer el p m) = m_slp m"
    "m_ftemp (parse_cloud_layer el p m) = m_ftemp m"
    "m_fdew (parse_cloud_layer el p m) = m_fdew m"
    "m_previous_element (parse_cloud_layer el p m) = m_previous_element m"
    by simp_all
qed

lemma parse_wind_frame:
  "m_metar (parse_wind el m) = m_metar m"
  "m_icao (parse_wind el m) = m_icao m"
  "m_day (parse_wind el m) = m_day m"
  "m_hour (parse_wind el m) = m_hour m"
  "m_min (parse_wind el m) = m_min m"
  "m_min_wind_dir (parse_wind el m) = m_min_wind_dir m"
  "m_max_wind_dir (parse_wind el m) = m_max_wind_dir m"
  "m_vis (parse_wind el m) = m_vis m"
  "m_vis_units (parse_wind el m) = m_vis_units m"
  "m_vis_lt (parse_wind el m) = m_vis_lt m"
  "m_cavok (parse_wind el m) = m_cavok m"
  "m_layers (parse_wind el m) = m_layers m"
  "m_vert_vis (parse_wind el m) = m_vert_vis m"
  "m_temp (parse_wind el m) = m_temp m"
  "m_dew (parse_wind el m) = m_dew m"
  "m_altimeterA (parse_wind el m) = m_altimeterA m"
  "m_altimeterQ (parse_wind el m) = m_altimeterQ m"
  "m_slp (parse_wind el m) = m_slp m"
  "m_ftemp (parse_wind el m) = m_ftemp m"
  "m_fdew (parse_wind el m) = m_fdew m"
  "m_previous_element (parse_wind el m) = m_previous_element m"
  by (cases "strstr el ''VRB''"; cases "strstr el ''G''"; simp add: parse_wind_def)+

lemma parse_vis_frame:
  "m_metar (parse_vis el m) = m_metar m"
  "m_icao (parse_vis el m) = m_icao m"
  "m_day (parse_vis el m) = m_day m"
  "m_hour (parse_vis el m) = m_hour m"
  "m_min (parse_vis el m) = m_min m"
  "m_wind_dir (parse_vis el m) = m_wind_dir m"
  "m_wind_spd (parse_vis el m) = m_wind_spd m"
  "m_gust (parse_vis el m) = m_gust m"
  "m_wind_speed_units (parse_vis el m) = m_wind_speed_units m"
  "m_min_wind_dir (parse_vis el m) = m_min_wind_dir m"
  "m_max_wind_dir (parse_vis el m) = m_max_wind_dir m"
  "m_vrb (parse_vis el m) = m_vrb m"
  "m_layers (parse_vis el m) = m_layers m"
  "m_vert_vis (parse_vis el m) = m_vert_vis m"
  "m_temp (parse_vis el m) = m_temp m"
  "m_dew (parse_vis el m) = m_dew m"
  "m_altimeterA (parse_vis el m) = m_altimeterA m"
  "m_altimeterQ (parse_vis el m) = m_altimeterQ m"
  "m_slp (parse_vis el m) = m_slp m"
  "m_ftemp (parse_vis el m) = m_ftemp m"
  "m_fdew (parse_vis el m) = m_fdew m"
  "m_previous_element (parse_vis el m) = m_previous_element m"
  by (cases "strstr el VIS_UNITS_SM"; cases "strstr el ''/''"; cases "m_previous_element m";
      simp add: parse_vis_def Let_def)+

lemma parse_temp_frame:
  "m_metar (parse_temp el m) = m_metar m"
  "m_icao (parse_temp el m) = m_icao m"
  "m_day (parse_temp el m) = m_day m"
  "m_hour (parse_temp el m) = m_hour m"
  "m_min (parse_temp el m) = m_min m"
  "m_wind_dir (parse_temp el m) = m_wind_dir m"
  "m_wind_spd (parse_temp el m) = m_wind_spd m"
  "m_gust (parse_temp el m) = m_gust m"
  "m_wind_speed_units (parse_temp el m) = m_wind_speed_units m"
  "m_min_wind_dir (parse_temp el m) = m_min_wind_dir m"
  "m_max_wind_dir (parse_temp el m) = m_max_wind_dir m"
  "m_vrb (parse_temp el m) = m_vrb m"
  "m_vis (parse_temp el m) = m_vis m"
  "m_vis_units (parse_temp el m) = m_vis_units m"
  "m_vis_lt (parse_temp el m) = m_vis_lt m"
  "m_cavok (parse_temp el m) = m_cavok m"
  "m_layers (parse_temp el m) = m_layers m"
  "m_vert_vis (parse_temp el m) = m_vert_vis m"
  "m_altimeterA (parse_temp el m) = m_altimeterA m"
  "m_altimeterQ (parse_temp el m) = m_altimeterQ m"
  "m_slp (parse_temp el m) = m_slp m"
  "m_ftemp (parse_temp el m) = m_ftemp m"
  "m_fdew (parse_temp el m) = m_fdew m"
  "m_previous_element (parse_temp el m) = m_previous_element m"
  by (cases "strstr el ''/''"; simp add: parse_temp_def Let_def)+

lemma parse_alt_frame:
  "m_metar (parse_alt el m) = m_metar m"
  "m_icao (parse_alt el m) = m_icao m"
  "m_day (parse_alt el m) = m_day m"
  "m_hour (parse_alt el m) = m_hour m"
  "m_min (parse_alt el m) = m_min m"
  "m_wind_dir (parse_alt el m) = m_wind_dir m"
  "m_wind_spd (parse_alt el m) = m_wind_spd m"
  "m_gust (parse_alt el m) = m_gust m"
  "m_wind_speed_units (parse_alt el m) = m_wind_speed_units m"
  "m_min_wind_dir (parse_alt el m) = m_min_wind_dir m"
  "m_max_wind_dir (parse_alt el m) = m_max_wind_dir m"
  "m_vrb (parse_alt el m) = m_vrb m"
  "m_vis (parse_alt el m) = m_vis m"
  "m_vis_units (parse_alt el m) = m_vis_units m"
  "m_vis_lt (parse_alt el m) = m_vis_lt m"
  "m_cavok (parse_alt el m) = m_cavok m"
  "m_layers (parse_alt el m) = m_layers m"
  "m_vert_vis (parse_alt el m) = m_vert_vis m"
  "m_temp (parse_alt el m) = m_temp m"
  "m_dew (parse_alt el m) = m_dew m"
  "m_slp (parse_alt el m) = m_slp m"
  "m_ftemp (parse_alt el m) = m_ftemp m"
  "m_fdew (parse_alt el m) = m_fdew m"
  "m_previous_element (parse_alt el m) = m_previous_element m"
  by (simp_all add: parse_alt_def Let_def)

lemma parse_metar_frame:
  "m_icao (parse_metar el m) = m_icao m"
  "m_day (parse_metar el m) = m_day m"
  "m_hour (parse_metar el m) = m_hour m"
  "m_min (parse_metar el m) = m_min m"
  "m_wind_dir (parse_metar el m) = m_wind_dir m"
  "m_wind_spd (parse_metar el m) = m_wind_spd m"
  "m_gust (parse_metar el m) = m_gust m"
  "m_wind_speed_units (parse_metar el m) = m_wind_speed_units m"
  "m_min_wind_dir (parse_metar el m) = m_min_wind_dir m"
  "m_max_wind_dir (parse_metar el m) = m_max_wind_dir m"
  "m_vrb (parse_metar el m) = m_vrb m"
  "m_vis (parse_metar el m) = m_vis m"
  "m_vis_units (parse_metar el m) = m_vis_units m"
  "m_vis_lt (parse_metar el m) = m_vis_lt m"
  "m_cavok (parse_metar el m) = m_cavok m"
  "m_layers (parse_metar el m) = m_layers m"
  "m_vert_vis (parse_metar el m) = m_vert_vis m"
  "m_temp (parse_metar el m) = m_temp m"
  "m_dew (parse_metar el m) = m_dew m"
  "m_altimeterA (parse_metar el m) = m_altimeterA m"
  "m_altimeterQ (parse_metar el m) = m_altimeterQ m"
  "m_slp (parse_metar el m) = m_slp m"
  "m_ftemp (parse_metar el m) = m_ftemp m"
  "m_fdew (parse_metar el m) = m_fdew m"
  "m_previous_element (parse_metar el m) = m_previous_element m"
  by (simp_all add: parse_metar_def)

lemma parse_icao_frame:
  "m_metar (parse_icao el m) = m_metar m"
  "m_day (parse_icao el m) = m_day m"
  "m_hour (parse_icao el m) = m_hour m"
  "m_min (parse_icao el m) = m_min m"
  "m_wind_dir (parse_icao el m) = m_wind_dir m"
  "m_wind_spd (parse_icao el m) = m_wind_spd m"
  "m_gust (parse_icao el m) = m_gust m"
  "m_wind_speed_units (parse_icao el m) = m_wind_speed_units m"
  "m_min_wind_dir (parse_icao el m) = m_min_wind_dir m"
  "m_max_wind_dir (parse_icao el m) = m_max_wind_dir m"
  "m_vrb (parse_icao el m) = m_vrb m"
  "m_vis (parse_icao el m) = m_vis m"
  "m_vis_units (parse_icao el m) = m_vis_units m"
  "m_vis_lt (parse_icao el m) = m_vis_lt m"
  "m_cavok (parse_icao el m) = m_cavok m"
  "m_layers (parse_icao el m) = m_layers m"
  "m_vert_vis (parse_icao el m) = m_vert_vis m"
  "m_temp (parse_icao el m) = m_temp m"
  "m_dew (parse_icao el m) = m_dew m"
  "m_altimeterA (parse_icao el m) = m_altimeterA m"
  "m_altimeterQ (parse_icao el m) = m_altimeterQ m"
  "m_slp (parse_icao el m) = m_slp m"
  "m_ftemp (parse_icao el m) = m_ftemp m"
  "m_fdew (parse_icao el m) = m_fdew m"
  "m_previous_element (parse_icao el m) = m_previous_element m"
  by (simp_all add: parse_icao_def)

lemma parse_ot_frame:
  "m_metar (parse_ot el m) = m_metar m"
  "m_icao (parse_ot el m) = m_icao m"
  "m_wind_dir (parse_ot el m) = m_wind_dir m"
  "m_wind_spd (parse_ot el m) = m_wind_spd m"
  "m_gust (parse_ot el m) = m_gust m"
  "m_wind_speed_units (parse_ot el m) = m_wind_speed_units m"
  "m_min_wind_dir (parse_ot el m) = m_min_wind_dir m"
  "m_max_wind_dir (parse_ot el m) = m_max_wind_dir m"
  "m_vrb (parse_ot el m) = m_vrb m"
  "m_vis (parse_ot el m) = m_vis m"
  "m_vis_units (parse_ot el m) = m_vis_units m"
  "m_vis_lt (parse_ot el m) = m_vis_lt m"
  "m_cavok (parse_ot el m) = m_cavok m"
  "m_layers (parse_ot el m) = m_layers m"
  "m_vert_vis (parse_ot el m) = m_vert_vis m"
  "m_temp (parse_ot el m) = m_temp m"
  "m_dew (parse_ot el m) = m_dew m"
  "m_altimeterA (parse_ot el m) = m_altimeterA m"
  "m_altimeterQ (parse_ot el m) = m_altimeterQ m"
  "m_slp (parse_ot el m) = m_slp m"
  "m_ftemp (parse_ot el m) = m_ftemp m"
  "m_fdew (parse_ot el m) = m_fdew m"
  "m_previous_element (parse_ot el m) = m_previous_element m"
  by (simp_all add: parse_ot_def)

lemma parse_wind_var_frame:
  "m_metar (parse_wind_var el m) = m_metar m"
  "m_icao (parse_wind_var el m) = m_icao m"
  "m_day (parse_wind_var el m) = m_day m"
  "m_hour (parse_wind_var el m) = m_hour m"
  "m_min (parse_wind_var el m) = m_min m"
  "m_wind_dir (parse_wind_var el m) = m_wind_dir m"
  "m_wind_spd (parse_wind_var el m) = m_wind_spd m"
  "m_gust (parse_wind_var el m) = m_gust m"
  "m_wind_speed_units (parse_wind_var el m) = m_wind_speed_units m"
  "m_vrb (parse_wind_var el m) = m_vrb m"
  "m_vis (parse_wind_var el m) = m_vis m"
  "m_vis_units (parse_wind_var el m) = m_vis_units m"
  "m_vis_lt (parse_wind_var el m) = m_vis_lt m"
  "m_cavok (parse_wind_var el m) = m_cavok m"
  "m_layers (parse_wind_var el m) = m_layers m"
  "m_vert_vis (parse_wind_var el m) = m_vert_vis m"
  "m_temp (parse_wind_var el m) = m_temp m"
  "m_dew (parse_wind_var el m) = m_dew m"
  "m_altimeterA (parse_wind_var el m) = m_altimeterA m"
  "m_altimeterQ (parse_wind_var el m) = m_altimeterQ m"
  "m_slp (parse_wind_var el m) = m_slp m"
  "m_ftemp (parse_wind_var el m) = m_ftemp m"
  "m_fdew (parse_wind_var el m) = m_fdew m"
  "m_previous_element (parse_wind_var el m) = m_previous_element m"
  by (simp_all add: parse_wind_var_def)

lemma parse_vert_vis_frame:
  "m_metar (parse_vert_vis el m) = m_metar m"
  "m_icao (parse_vert_vis el m) = m_icao m"
  "m_day (parse_vert_vis el m) = m_day m"
  "m_hour (parse_vert_vis el m) = m_hour m"
  "m_min (parse_vert_vis el m) = m_min m"
  "m_wind_dir (parse_vert_vis el m) = m_wind_dir m"
  "m_wind_spd (parse_vert_vis el m) = m_wind_spd m"
  "m_gust (parse_vert_vis el m) = m_gust m"
  "m_wind_speed_units (parse_vert_vis el m) = m_wind_speed_units m"
  "m_min_wind_dir (parse_vert_vis el m) = m_min_wind_dir m"
  "m_max_wind_dir (parse_vert_vis el m) = m_max_wind_dir m"
  "m_vrb (parse_vert_vis el m) = m_vrb m"
  "m_vis (parse_vert_vis el m) = m_vis m"
  "m_vis_units (parse_vert_vis el m) = m_vis_units m"
  "m_vis_lt (parse_vert_vis el m) = m_vis_lt m"
  "m_cavok (parse_vert_vis el m) = m_cavok m"
  "m_layers (parse_vert_vis el m) = m_layers m"
  "m_temp (parse_vert_vis el m) = m_temp m"
  "m_dew (parse_vert_vis el m) = m_dew m"
  "m_altimeterA (parse_vert_vis el m) = m_altimeterA m"
  "m_altimeterQ (parse_vert_vis el m) = m_altimeterQ m"
  "m_slp (parse_vert_vis el m) = m_slp m"
  "m_ftemp (parse_vert_vis el m) = m_ftemp m"
  "m_fdew (parse_vert_vis el m) = m_fdew m"
  "m_previous_element (parse_vert_vis el m) = m_previous_element m"
  by (simp_all add: parse_vert_vis_def)

lemma parse_slp_frame:
  "m_metar (parse_slp el m) = m_metar m"
  "m_icao (parse_slp el m) = m_icao m"
  "m_day (parse_slp el m) = m_day m"
  "m_hour (parse_slp el m) = m_hour m"
  "m_min (parse_slp el m) = m_min m"
  "m_wind_dir (parse_slp el m) = m_wind_dir m"
  "m_wind_spd (parse_slp el m) = m_wind_spd m"
  "m_gust (parse_slp el m) = m_gust m"
  "m_wind_speed_units (parse_slp el m) = m_wind_speed_units m"
  "m_min_wind_dir (parse_slp el m) = m_min_wind_dir m"
  "m_max_wind_dir (parse_slp el m) = m_max_wind_dir m"
  "m_vrb (parse_slp el m) = m_vrb m"
  "m_vis (parse_slp el m) = m_vis m"
  "m_vis_units (parse_slp el m) = m_vis_units m"
  "m_vis_lt (parse_slp el m) = m_vis_lt m"
  "m_cavok (parse_slp el m) = m_cavok m"
  "m_layers (parse_slp el m) = m_layers m"
  "m_vert_vis (parse_slp el m) = m_vert_vis m"
  "m_temp (parse_slp el m) = m_temp m"
  "m_dew (parse_slp el m) = m_dew m"
  "m_altimeterA (parse_slp el m) = m_altimeterA m"
  "m_altimeterQ (parse_slp el m) = m_altimeterQ m"
  "m_ftemp (parse_slp el m) = m_ftemp m"
  "m_fdew (parse_slp el m) = m_fdew m"
  "m_previous_element (parse_slp el m) = m_previous_element m"
  by (simp_all add: parse_slp_def)

lemma parse_tempNA_frame:
  "m_metar (parse_tempNA el m) = m_metar m"
  "m_icao (parse_tempNA el m) = m_icao m"
  "m_day (parse_tempNA el m) = m_day m"
  "m_hour (parse_tempNA el m) = m_hour m"
  "m_min (parse_tempNA el m) = m_min m"
  "m_wind_dir (parse_tempNA el m) = m_wind_dir m"
  "m_wind_spd (parse_tempNA el m) = m_wind_spd m"
  "m_gust (parse_tempNA el m) = m_gust m"
  "m_wind_speed_units (parse_tempNA el m) = m_wind_speed_units m"
  "m_min_wind_dir (parse_tempNA el m) = m_min_wind_dir m"
  "m_max_wind_dir (parse_tempNA el m) = m_max_wind_dir m"
  "m_vrb (parse_tempNA el m) = m_vrb m"
  "m_vis (parse_tempNA el m) = m_vis m"
  "m_vis_units (parse_tempNA el m) = m_vis_units m"
  "m_vis_lt (parse_tempNA el m) = m_vis_lt m"
  "m_cavok (parse_tempNA el m) = m_cavok m"
  "m_layers (parse_tempNA el m) = m_layers m"
  "m_vert_vis (parse_tempNA el m) = m_vert_vis m"
  "m_temp (parse_tempNA el m) = m_temp m"
  "m_dew (parse_tempNA el m) = m_dew m"
  "m_altimeterA (parse_tempNA el m) = m_altimeterA m"
  "m_altimeterQ (parse_tempNA el m) = m_altimeterQ m"
  "m_slp (parse_tempNA el m) = m_slp m"
  "m_previous_element (parse_tempNA el m) = m_previous_element m"
  by (simp_all add: parse_tempNA_def)

lemmas frames = parse_cloud_layer_frame parse_wind_frame parse_vis_frame parse_temp_frame
  parse_alt_frame

lemmas all_frames = frames parse_metar_frame parse_icao_frame parse_ot_frame
  parse_wind_var_frame parse_vert_vis_frame parse_slp_frame parse_tempNA_frame

lemmas simple_parser_defs = parse_metar_def parse_icao_def parse_ot_def parse_wind_var_def
  parse_vert_vis_def parse_slp_def parse_tempNA_def


subsection \<open>The shapes, spelled out\<close>

lemma is_icao_iff:
  "is_icao el \<longleftrightarrow>
     (\<exists>a b c d. el = [a, b, c, d] \<and> isalpha a \<and> isalpha b \<and> isalpha c \<and> isalpha d)"
  by (auto simp: is_icao_def match_character_def split: list.splits)

lemma is_metar_not_icao: "is_metar el \<Longrightarrow> \<not> is_icao el"
  by (auto simp: is_metar_def is_icao_def)

lemma is_slp_iff:
  "is_slp el \<longleftrightarrow> (\<exists>a b c. el = ''SLP'' @ [a, b, c] \<and> isdigit a \<and> isdigit b \<and> isdigit c)"
  by (auto simp: is_slp_def match_character_def split: list.splits)

lemma is_altA_iff:
  "is_altA el \<longleftrightarrow>
     (\<exists>a b c d. el = ''A'' @ [a, b, c, d] \<and> isdigit a \<and> isdigit b \<and> isdigit c \<and> isdigit d)"
  by (auto simp: is_altA_def match_character_def split: list.splits)

lemma is_altQ_iff:
  "is_altQ el \<longleftrightarrow>
     (\<exists>a b c d. el = ''Q'' @ [a, b, c, d] \<and> isdigit a \<and> isdigit b \<and> isdigit c \<and> isdigit d)"
  by (auto simp: is_altQ_def match_character_def split: list.splits)

lemmas earlier_shapes = is_metar_def is_icao_def is_ot_def is_wind_def is_wind_var_def
  is_cloud_layer_def is_vert_vis_def is_temp_def is_altA_def is_altQ_def is_slp_def is_tempNA_def
  is_vis_def VIS_UNITS_SM_def match_character_def sky_conditions_def

lemma is_slp_only:
  assumes "is_slp el"
  shows "\<not> is_metar el" "\<not> is_icao el" "\<not> is_ot el" "\<not> is_wind el" "\<not> is_wind_var el"
    "\<not> is_vis el" "\<not> is_cloud_layer el" "\<not> is_vert_vis el" "\<not> is_temp el"
    "\<not> is_altA el" "\<not> is_altQ el" "\<not> is_tempNA el"
proof -
  obtain a b c where el: "el = ''SLP'' @ [a, b, c]" and d: "isdigit a" "isdigit b" "isdigit c"
    using assms by (auto simp: is_slp_iff)
  show "\<not> is_metar el" "\<not> is_icao el" "\<not> is_ot el" "\<not> is_wind el" "\<not> is_wind_var el"
    "\<not> is_vis el" "\<not> is_cloud_layer el" "\<not> is_vert_vis el" "\<not> is_temp el"
    "\<not> is_altA el" "\<not> is_altQ el" "\<not> is_tempNA el"
    using d unfolding el by (simp_all add: earlier_shapes char_facts)
qed

lemma is_altA_only:
  assumes "is_altA el"
  shows "\<not> is_metar el" "\<not> is_icao el" "\<not> is_ot el" "\<not> is_wind el" "\<not> is_wind_var el"
    "\<not> is_vis el" "\<not> is_cloud_layer el" "\<not> is_vert_vis el" "\<not> is_temp el"
    "\<not> is_altQ el" "\<not> is_slp el" "\<not> is_tempNA el" "hd el \<noteq> CHR ''Q''"
proof -
  obtain a b c d where el: "el = ''A'' @ [a, b, c, d]"
    and d: "isdigit a" "isdigit b" "isdigit c" "isdigit d"
    using assms by (auto simp: is_altA_iff)
  show "\<not> is_metar el" "\<not> is_icao el" "\<not> is_ot el" "\<not> is_wind el" "\<not> is_wind_var el"
    "\<not> is_vis el" "\<not> is_cloud_layer el" "\<not> is_vert_vis el" "\<not> is_temp el"
    "\<not> is_altQ el" "\<not> is_slp el" "\<not> is_tempNA el" "hd el \<noteq> CHR ''Q''"
    using d unfolding el by (simp_all add: earlier_shapes char_facts)
qed

lemma is_altQ_only:
  assumes "is_altQ el"
  shows "\<not> is_metar el" "\<not> is_icao el" "\<not> is_ot el" "\<not> is_wind el" "\<not> is_wind_var el"
    "\<not> is_vis el" "\<not> is_cloud_layer el" "\<not> is_vert_vis el" "\<not> is_temp el"
    "\<not> is_altA el" "\<not> is_slp el" "\<not> is_tempNA el" "hd el = CHR ''Q''"
proof -
  obtain a b c d where el: "el = ''Q'' @ [a, b, c, d]"
    and d: "isdigit a" "isdigit b" "isdigit c" "isdigit d"
    using assms by (auto simp: is_altQ_iff)
  show "\<not> is_metar el" "\<not> is_icao el" "\<not> is_ot el" "\<not> is_wind el" "\<not> is_wind_var el"
    "\<not> is_vis el" "\<not> is_cloud_layer el" "\<not> is_vert_vis el" "\<not> is_temp el"
    "\<not> is_altA el" "\<not> is_slp el" "\<not> is_tempNA el" "hd el = CHR ''Q''"
    using d unfolding el by (simp_all add: earlier_shapes char_facts)
qed


subsection \<open>Values that are not the undefined ones\<close>

lemma small_defined: "x \<le> 100000 \<Longrightarrow> Fin x \<noteq> DOUBLE_UNDEFINED"
  by (simp add: DOUBLE_UNDEFINED_def)

lemma nonneg_defined: "0 \<le> n \<Longrightarrow> n \<noteq> INTEGER_UNDEFINED"
  by (simp add: INTEGER_UNDEFINED_def)

lemma read_digits_4:
  assumes "isdigit a" "isdigit b" "isdigit c" "isdigit d"
  shows "atoi [a, b, c, d] =
           1000 * digit_value a + 100 * digit_value b + 10 * digit_value c + digit_value d"
    and "0 \<le> atoi [a, b, c, d]" and "atoi [a, b, c, d] \<le> 9999"
  using assms digit_value_range[of a] digit_value_range[of b] digit_value_range[of c]
    digit_value_range[of d]
  by (simp_all add: atoi_digit)

lemma read_digits_3:
  assumes "isdigit a" "isdigit b" "isdigit c"
  shows "atoi [a, b, c] = 100 * digit_value a + 10 * digit_value b + digit_value c"
    and "0 \<le> atoi [a, b, c]" and "atoi [a, b, c] \<le> 999"
  using assms digit_value_range[of a] digit_value_range[of b] digit_value_range[of c]
  by (simp_all add: atoi_digit)

lemma read_digits_2:
  assumes "isdigit a" "isdigit b"
  shows "atoi [a, b] = 10 * digit_value a + digit_value b"
    and "0 \<le> atoi [a, b]" and "atoi [a, b] \<le> 99"
  using assms digit_value_range[of a] digit_value_range[of b]
  by (simp_all add: atoi_digit)

subsection \<open>One turn of the loop, field by field\<close>

lemma icao_step:
  "m_icao (parse_step mem m tk) =
     (if \<not> (m_icao m \<noteq> []) \<and> is_icao (fst tk) then fst tk else m_icao m)"
  by (simp add: parse_step_def parse_element_def frames simple_parser_defs hasICAO_def
        is_metar_not_icao)

lemma slp_step:
  "m_slp (parse_step mem m tk) =
     (if \<not> (m_slp m \<noteq> DOUBLE_UNDEFINED) \<and> is_slp (fst tk)
      then dadd (ddiv (atof (drop 3 (fst tk))) (Fin 10)) (Fin 1000) else m_slp m)"
proof (cases "is_slp (fst tk)")
  case True
  show ?thesis
    using True
    by (simp add: parse_step_def parse_element_def is_slp_only[OF True]
          hasSeaLevelPressure_def parse_slp_def)
next
  case False
  then show ?thesis
    by (simp add: parse_step_def parse_element_def frames simple_parser_defs)
qed

lemma altA_step:
  "m_altimeterA (parse_step mem m tk) =
     (if \<not> (m_altimeterA m \<noteq> DOUBLE_UNDEFINED) \<and> is_altA (fst tk)
      then ddiv (Fin (of_int (atoi (drop 1 (fst tk))))) (Fin 100) else m_altimeterA m)"
proof (cases "is_altA (fst tk)")
  case True
  show ?thesis
    using True
    by (simp add: parse_step_def parse_element_def is_altA_only[OF True]
          hasAltimeterA_def parse_alt_def)
next
  case False
  have "m_altimeterA (parse_alt (fst tk) m) = m_altimeterA m" if "is_altQ (fst tk)"
    using is_altQ_only(13)[OF that] by (simp add: parse_alt_def)
  with False show ?thesis
    by (simp add: parse_step_def parse_element_def frames simple_parser_defs)
qed

lemma altQ_step:
  "m_altimeterQ (parse_step mem m tk) =
     (if \<not> (m_altimeterQ m \<noteq> INTEGER_UNDEFINED) \<and> is_altQ (fst tk)
      then atoi (drop 1 (fst tk)) else m_altimeterQ m)"
proof (cases "is_altQ (fst tk)")
  case True
  show ?thesis
    using True
    by (simp add: parse_step_def parse_element_def is_altQ_only[OF True]
          hasAltimeterQ_def parse_alt_def)
next
  case False
  have "m_altimeterQ (parse_alt (fst tk) m) = m_altimeterQ m" if "is_altA (fst tk)"
    using is_altA_only(13)[OF that] by (simp add: parse_alt_def)
  with False show ?thesis
    by (simp add: parse_step_def parse_element_def frames simple_parser_defs)
qed

lemma Metar_fold:
  "Metar mem s = foldl (parse_step mem) Metar_init (strtok_all (takeWhile (\<lambda>c. c \<noteq> NUL) s))"
  by (simp add: Metar_def parse_def)

lemma find_None_list_ex: "(find P xs = None) = (\<not> list_ex P xs)"
  by (induction xs) auto

lemma find_Some_list_ex: "find P xs = Some t \<Longrightarrow> P t \<and> list_ex P xs"
  by (induction xs) (auto split: if_splits)

subsection \<open>Temperature tokens\<close>

lemma is_temp_iff:
  "is_temp el \<longleftrightarrow>
     (\<exists>a b. isdigit a \<and> isdigit b \<and>
        (el = [a, b] @ ''/'' \<or> el = ''M'' @ [a, b] @ ''/'' \<or>
         (\<exists>c d. isdigit c \<and> isdigit d \<and>
            (el = [a, b] @ ''/'' @ [c, d] \<or> el = [a, b] @ ''/M'' @ [c, d] \<or>
             el = ''M'' @ [a, b] @ ''/M'' @ [c, d]))))"
  by (auto simp: is_temp_def match_character_def split: list.splits)

lemma temp_shape_only:
  assumes "isdigit a" "isdigit b" "isdigit c" "isdigit d"
    and "el = [a, b] @ ''/'' \<or> el = ''M'' @ [a, b] @ ''/'' \<or>
         el = [a, b] @ ''/'' @ [c, d] \<or> el = [a, b] @ ''/M'' @ [c, d] \<or>
         el = ''M'' @ [a, b] @ ''/M'' @ [c, d]"
  shows "\<not> is_metar el \<and> \<not> is_icao el \<and> \<not> is_ot el \<and> \<not> is_wind el \<and> \<not> is_wind_var el
    \<and> \<not> is_vis el \<and> \<not> is_cloud_layer el \<and> \<not> is_vert_vis el"
  using assms(5)
proof (elim disjE)
  assume "el = [a, b] @ ''/''"
  then show ?thesis using assms(1-4) by (simp add: earlier_shapes char_facts)
next
  assume "el = ''M'' @ [a, b] @ ''/''"
  then show ?thesis using assms(1-4) by (simp add: earlier_shapes char_facts)
next
  assume "el = [a, b] @ ''/'' @ [c, d]"
  then show ?thesis using assms(1-4) by (simp add: earlier_shapes char_facts)
next
  assume "el = [a, b] @ ''/M'' @ [c, d]"
  then show ?thesis using assms(1-4) by (simp add: earlier_shapes char_facts)
next
  assume "el = ''M'' @ [a, b] @ ''/M'' @ [c, d]"
  then show ?thesis using assms(1-4) by (simp add: earlier_shapes char_facts)
qed

lemma is_temp_only:
  assumes "is_temp el"
  shows "\<not> is_metar el" "\<not> is_icao el" "\<not> is_ot el" "\<not> is_wind el" "\<not> is_wind_var el"
    "\<not> is_vis el" "\<not> is_cloud_layer el" "\<not> is_vert_vis el"
proof -
  from assms[unfolded is_temp_iff] obtain a b where
    f: "isdigit a \<and> isdigit b \<and>
        (el = [a, b] @ ''/'' \<or> el = ''M'' @ [a, b] @ ''/'' \<or>
         (\<exists>c d. isdigit c \<and> isdigit d \<and>
            (el = [a, b] @ ''/'' @ [c, d] \<or> el = [a, b] @ ''/M'' @ [c, d] \<or>
             el = ''M'' @ [a, b] @ ''/M'' @ [c, d])))"
    by (elim exE) (rule that)
  then have ab: "isdigit a" "isdigit b"
    by simp_all
  have "\<not> is_metar el \<and> \<not> is_icao el \<and> \<not> is_ot el \<and> \<not> is_wind el \<and> \<not> is_wind_var el
    \<and> \<not> is_vis el \<and> \<not> is_cloud_layer el \<and> \<not> is_vert_vis el"
  proof (cases "el = [a, b] @ ''/'' \<or> el = ''M'' @ [a, b] @ ''/''")
    case True
    then show ?thesis
      by (intro temp_shape_only[OF ab ab]) blast
  next
    case False
    with f obtain c d where cd: "isdigit c" "isdigit d"
      and "el = [a, b] @ ''/'' @ [c, d] \<or> el = [a, b] @ ''/M'' @ [c, d] \<or>
           el = ''M'' @ [a, b] @ ''/M'' @ [c, d]"
      by blast
    then show ?thesis
      by (intro temp_shape_only[OF ab cd]) blast
  qed
  then show "\<not> is_metar el" "\<not> is_icao el" "\<not> is_ot el" "\<not> is_wind el" "\<not> is_wind_var el"
    "\<not> is_vis el" "\<not> is_cloud_layer el" "\<not> is_vert_vis el"
    by simp_all
qed

lemma temp_plain: "isdigit a \<Longrightarrow> isdigit b \<Longrightarrow> temp [a, b] = 10 * digit_value a + digit_value b"
  by (simp add: temp_def read_digits_2 char_facts)

lemma temp_minus:
  "isdigit a \<Longrightarrow> isdigit b \<Longrightarrow> temp [CHR ''M'', a, b] = - (10 * digit_value a + digit_value b)"
  by (simp add: temp_def atoi_def char_facts)

text \<open>What \<^verbatim>\<open>parse_temp\<close> writes, as a function of the token and of the old pair.\<close>

lemma parse_temp_pair:
  "(m_temp (parse_temp el m), m_dew (parse_temp el m)) =
     (case strstr el ''/'' of
        None \<Rightarrow> (m_temp m, m_dew m)
      | Some p \<Rightarrow> (temp (take p el),
                   if drop (p + 1) el \<noteq> [] then temp (drop (p + 1) el) else m_dew m))"
  by (cases "strstr el ''/''") (simp_all add: parse_temp_def Let_def)

lemma temp_step:
  "(m_temp (parse_step mem m tk), m_dew (parse_step mem m tk)) =
     (if m_temp m = INTEGER_UNDEFINED \<and> is_temp (fst tk)
      then (m_temp (parse_temp (fst tk) m), m_dew (parse_temp (fst tk) m))
      else (m_temp m, m_dew m))"
proof (cases "is_temp (fst tk)")
  case True
  show ?thesis
    using True
    by (simp add: parse_step_def parse_element_def is_temp_only[OF True] hasTemperature_def
          frames simple_parser_defs)
next
  case False
  then show ?thesis
    by (simp add: parse_step_def parse_element_def frames simple_parser_defs)
qed

lemma temp_of_token:
  assumes "isdigit a" "isdigit b"
  shows "strstr ([a, b] @ CHR ''/'' # r) ''/'' = Some 2"
    and "strstr (''M'' @ [a, b] @ CHR ''/'' # r) ''/'' = Some 3"
  using assms by (simp_all add: char_facts)

lemma temp_range:
  assumes "is_temp el"
  shows "\<exists>p. strstr el ''/'' = Some p \<and> temp (take p el) \<noteq> INTEGER_UNDEFINED"
proof -
  have small: "temp [a, b] \<noteq> INTEGER_UNDEFINED" "temp [CHR ''M'', a, b] \<noteq> INTEGER_UNDEFINED"
    if "isdigit a" "isdigit b" for a b
    using that digit_value_range[of a] digit_value_range[of b] temp_plain[of a b]
      temp_minus[of a b]
    by (simp_all add: INTEGER_UNDEFINED_def)
  obtain a b r where d: "isdigit a" "isdigit b"
    and el: "el = [a, b] @ CHR ''/'' # r \<or> el = ''M'' @ [a, b] @ CHR ''/'' # r"
    using assms unfolding is_temp_iff by auto
  from el show ?thesis
  proof
    assume "el = [a, b] @ CHR ''/'' # r"
    then show ?thesis
      using temp_of_token(1)[OF d, of r] small(1)[OF d] by simp
  next
    assume "el = ''M'' @ [a, b] @ CHR ''/'' # r"
    then show ?thesis
      using temp_of_token(2)[OF d, of r] small(2)[OF d] by simp
  qed
qed

lemma temp_first:
  "(m_temp (Metar mem s), m_dew (Metar mem s)) =
     (case find is_temp (tokens s) of
        None \<Rightarrow> (INTEGER_UNDEFINED, INTEGER_UNDEFINED)
      | Some t \<Rightarrow>
          (case strstr t ''/'' of
             None \<Rightarrow> (INTEGER_UNDEFINED, INTEGER_UNDEFINED)
           | Some p \<Rightarrow> (temp (take p t),
                        if drop (p + 1) t \<noteq> [] then temp (drop (p + 1) t)
                        else INTEGER_UNDEFINED)))"
proof -
  let ?g = "\<lambda>m. (m_temp m, m_dew m)"
  let ?D = "\<lambda>t (v :: int \<times> int).
    (case strstr t ''/'' of
       None \<Rightarrow> v
     | Some p \<Rightarrow> (temp (take p t),
                  if drop (p + 1) t \<noteq> [] then temp (drop (p + 1) t) else snd v))"
  have "?g (foldl (parse_step mem) Metar_init tks) =
      (case find is_temp (map fst tks) of None \<Rightarrow> ?g Metar_init
       | Some t \<Rightarrow> ?D t (?g Metar_init))" for tks
  proof (rule foldl_first[where H = "\<lambda>v. fst v \<noteq> INTEGER_UNDEFINED" and D = ?D])
    show "?g (parse_step mem m tk) =
        (if \<not> fst (?g m) \<noteq> INTEGER_UNDEFINED \<and> is_temp (fst tk) then ?D (fst tk) (?g m)
         else ?g m)" for m tk
      using temp_step[of mem m tk] parse_temp_pair[of "fst tk" m]
      by (simp split: option.split)
    show "fst (?D t v) \<noteq> INTEGER_UNDEFINED" if "is_temp t" for t v
      using temp_range[OF that] by auto
    show "\<not> fst (?g Metar_init) \<noteq> INTEGER_UNDEFINED"
      by (simp add: Metar_init_def)
  qed
  then show ?thesis
    unfolding Metar_fold tokens_def by (simp add: Metar_init_def split: option.split)
qed


subsection \<open>Cloud layer tokens\<close>

lemma starts_with_code:
  "starts_with ''SKC'' el = (take 3 el = ''SKC'')"
  "starts_with ''CLR'' el = (take 3 el = ''CLR'')"
  "starts_with ''NSC'' el = (take 3 el = ''NSC'')"
  "starts_with ''FEW'' el = (take 3 el = ''FEW'')"
  "starts_with ''SCT'' el = (take 3 el = ''SCT'')"
  "starts_with ''BKN'' el = (take 3 el = ''BKN'')"
  "starts_with ''OVC'' el = (take 3 el = ''OVC'')"
  by (auto simp: match_character_def split: list.splits)

lemma cloud_layer_case_layers:
  "m_layers (cloud_layer_case el p m c) =
     m_layers m @ m_layers (cloud_layer_case el p Metar_init c)"
  by (simp add: cloud_layer_case_def add_layer_def Metar_init_def)

lemma cloud_layer_case_length:
  "length (m_layers (cloud_layer_case el p Metar_init c)) = (if starts_with c el then 1 else 0)"
  by (simp add: cloud_layer_case_def add_layer_def Metar_init_def)

lemma cloud_fold_layers:
  "m_layers (foldl (cloud_layer_case el p) m cs) =
     m_layers m @ concat (map (\<lambda>c. m_layers (cloud_layer_case el p Metar_init c)) cs)"
proof (induction cs arbitrary: m)
  case Nil
  show ?case by simp
next
  case (Cons c cs)
  show ?case
    using Cons.IH[of "cloud_layer_case el p m c"] cloud_layer_case_layers[of el p m c]
    by simp
qed

lemma parse_cloud_layer_layers:
  "m_layers (parse_cloud_layer el p m) = m_layers m @ m_layers (parse_cloud_layer el p Metar_init)"
  unfolding parse_cloud_layer_def cloud_fold_layers[of el p m]
    cloud_fold_layers[of el p Metar_init]
  by (simp add: Metar_init_def)

lemma Metar_init_layers: "m_layers Metar_init = []"
  by (simp add: Metar_init_def)

lemma layers_of_length:
  "length (layers_of mem tk) = (if is_cloud_layer (fst tk) then 1 else 0)"
proof -
  have "length (layers_of mem tk) =
      sum_list (map (\<lambda>c. if starts_with c (fst tk) then 1 else 0) sky_conditions)"
    unfolding layers_of_def parse_cloud_layer_def cloud_fold_layers Metar_init_layers
    by (simp only: append_Nil length_concat map_map o_def cloud_layer_case_length)
  then show ?thesis
    by (simp add: is_cloud_layer_def sky_conditions_def starts_with_code
          del: starts_with_Cons)
qed

lemma is_cloud_layer_iff: "is_cloud_layer el \<longleftrightarrow> take 3 el \<in> set sky_conditions"
  by (simp add: is_cloud_layer_def sky_conditions_def starts_with_code del: starts_with_Cons)

lemma is_cloud_layer_only:
  assumes "is_cloud_layer el"
  shows "\<not> is_metar el" "\<not> is_ot el" "\<not> is_wind el" "\<not> is_wind_var el" "\<not> is_vis el"
proof -
  obtain a b c r where el: "el = a # b # c # r"
    and abc: "[a, b, c] \<in> set sky_conditions"
    using assms
    unfolding is_cloud_layer_iff
    by (cases el; cases "tl el"; cases "tl (tl el)") (auto simp: sky_conditions_def)
  have hd: "\<not> isdigit a" "a \<noteq> CHR ''M''" "a \<noteq> CHR ''V''" "[a, b] \<noteq> ''CA''" "[a, b] \<noteq> ''SP''"
    using abc by (auto simp: sky_conditions_def isdigit_def)
  show "\<not> is_metar el" "\<not> is_ot el" "\<not> is_wind el" "\<not> is_wind_var el"
    using hd unfolding el
    by (auto simp: is_metar_def is_ot_def is_wind_def is_wind_var_def match_character_def)
  show "\<not> is_vis el"
    using hd unfolding el
    by (cases "strstr (a # b # c # r) ''SM''")
      (auto simp: is_vis_def VIS_UNITS_SM_def match_character_def Let_def)
qed

text \<open>
  One turn of the loop seen from the cloud layers: the token that becomes the station
  identifier adds nothing; any other token adds its layers as long as fewer than three
  are in place.
\<close>

lemma layers_step_icao:
  assumes "\<not> hasICAO m" "is_icao (fst tk)"
  shows "m_layers (parse_step mem m tk) = m_layers m" "hasICAO (parse_step mem m tk)"
proof -
  have "\<not> is_metar (fst tk)"
    using assms(2) is_metar_not_icao by blast
  then have "parse_step mem m tk = (parse_icao (fst tk) m)\<lparr>m_previous_element := Some (fst tk)\<rparr>"
    using assms by (simp add: parse_step_def parse_element_def)
  moreover have "fst tk \<noteq> []"
    using assms(2) by (auto simp: is_icao_iff)
  ultimately show "m_layers (parse_step mem m tk) = m_layers m" "hasICAO (parse_step mem m tk)"
    by (simp_all add: parse_icao_def hasICAO_def)
qed

lemma layers_step_other:
  assumes "hasICAO m \<or> \<not> is_icao (fst tk)"
  shows "m_layers (parse_step mem m tk) =
      (if length (m_layers m) < 3 then m_layers m @ layers_of mem tk else m_layers m)"
    and "hasICAO (parse_step mem m tk) = hasICAO m"
proof -
  have ni: "(\<not> hasICAO m \<and> is_icao (fst tk)) = False"
    using assms by blast
  show "hasICAO (parse_step mem m tk) = hasICAO m"
    using assms icao_step[of mem m tk] by (auto simp: hasICAO_def)
  show "m_layers (parse_step mem m tk) =
      (if length (m_layers m) < 3 then m_layers m @ layers_of mem tk else m_layers m)"
  proof (cases "is_cloud_layer (fst tk)")
    case True
    show ?thesis
      using parse_cloud_layer_layers[of "fst tk" "token_memory mem (fst tk) (snd tk)" m]
      by (simp add: parse_step_def parse_element_def is_cloud_layer_only[OF True] True ni
            MAX_CLOUD_LAYERS_def layers_of_def frames simple_parser_defs)
  next
    case False
    have "layers_of mem tk = []"
      using layers_of_length[of mem tk] False by simp
    then show ?thesis
      using False by (simp add: parse_step_def parse_element_def ni frames simple_parser_defs)
  qed
qed

lemma layers_fold:
  assumes "length (m_layers m) \<le> 3"
  shows "m_layers (foldl (parse_step mem) m tks) =
      take 3 (m_layers m @ concat (map (layers_of mem)
        (if hasICAO m then tks else skip_first (\<lambda>tk. is_icao (fst tk)) tks)))"
  using assms
proof (induction tks arbitrary: m)
  case Nil
  then show ?case by simp
next
  case (Cons tk tks)
  show ?case
  proof (cases "\<not> hasICAO m \<and> is_icao (fst tk)")
    case True
    then show ?thesis
      using layers_step_icao[of m tk mem] Cons.IH[of "parse_step mem m tk"] Cons.prems
      by simp
  next
    case False
    then have o: "hasICAO m \<or> \<not> is_icao (fst tk)"
      by blast
    have len: "length (m_layers (parse_step mem m tk)) \<le> 3"
      using layers_step_other(1)[OF o, of mem] layers_of_length[of mem tk] Cons.prems
      by (simp split: if_splits)
    show ?thesis
      using layers_step_other[OF o, of mem] Cons.IH[OF len] Cons.prems False
      by (auto simp: take_Suc_conv_app_nth)
  qed
qed

subsection \<open>The branch that a token takes\<close>

lemma parse_element_cases [case_names metar icao ot wind wind_var vis cloud vert_vis temp altA altQ slp tempNA none]:
  obtains
    "\<not> hasMETAR m" "is_metar el" "parse_element p el m = parse_metar el m"
  | "\<not> hasICAO m" "is_icao el" "parse_element p el m = parse_icao el m"
  | "\<not> hasMinute m" "is_ot el" "parse_element p el m = parse_ot el m"
  | "\<not> hasWindSpeed m" "is_wind el" "parse_element p el m = parse_wind el m"
  | "\<not> hasMinWindDirection m" "is_wind_var el" "parse_element p el m = parse_wind_var el m"
  | "\<not> hasVisibility m" "\<not> m_cavok m" "is_vis el" "parse_element p el m = parse_vis el m"
  | "length (m_layers m) < MAX_CLOUD_LAYERS" "is_cloud_layer el" "parse_element p el m = parse_cloud_layer el p m"
  | "\<not> hasVerticalVisibility m" "is_vert_vis el" "parse_element p el m = parse_vert_vis el m"
  | "\<not> hasTemperature m" "is_temp el" "parse_element p el m = parse_temp el m"
  | "\<not> hasAltimeterA m" "is_altA el" "parse_element p el m = parse_alt el m"
  | "\<not> hasAltimeterQ m" "is_altQ el" "parse_element p el m = parse_alt el m"
  | "\<not> hasSeaLevelPressure m" "is_slp el" "parse_element p el m = parse_slp el m"
  | "\<not> hasTemperatureNA m" "is_tempNA el" "parse_element p el m = parse_tempNA el m"
  | "parse_element p el m = m"
proof -
  define c1 where "c1 \<longleftrightarrow> \<not> hasMETAR m \<and> is_metar el"
  define c2 where "c2 \<longleftrightarrow> \<not> hasICAO m \<and> is_icao el"
  define c3 where "c3 \<longleftrightarrow> \<not> hasMinute m \<and> is_ot el"
  define c4 where "c4 \<longleftrightarrow> \<not> hasWindSpeed m \<and> is_wind el"
  define c5 where "c5 \<longleftrightarrow> \<not> hasMinWindDirection m \<and> is_wind_var el"
  define c6 where "c6 \<longleftrightarrow> \<not> hasVisibility m \<and> \<not> m_cavok m \<and> is_vis el"
  define c7 where "c7 \<longleftrightarrow> length (m_layers m) < MAX_CLOUD_LAYERS \<and> is_cloud_layer el"
  define c8 where "c8 \<longleftrightarrow> \<not> hasVerticalVisibility m \<and> is_vert_vis el"
  define c9 where "c9 \<longleftrightarrow> \<not> hasTemperature m \<and> is_temp el"
  define c10 where "c10 \<longleftrightarrow> \<not> hasAltimeterA m \<and> is_altA el"
  define c11 where "c11 \<longleftrightarrow> \<not> hasAltimeterQ m \<and> is_altQ el"
  define c12 where "c12 \<longleftrightarrow> \<not> hasSeaLevelPressure m \<and> is_slp el"
  define c13 where "c13 \<longleftrightarrow> \<not> hasTemperatureNA m \<and> is_tempNA el"
  have pe: "parse_element p el m =
     (if c1 then parse_metar el m
      else if c2 then parse_icao el m
      else if c3 then parse_ot el m
      else if c4 then parse_wind el m
      else if c5 then parse_wind_var el m
      else if c6 then parse_vis el m
      else if c7 then parse_cloud_layer el p m
      else if c8 then parse_vert_vis el m
      else if c9 then parse_temp el m
      else if c10 then parse_alt el m
      else if c11 then parse_alt el m
      else if c12 then parse_slp el m
      else if c13 then parse_tempNA el m
      else m)"
    unfolding parse_element_def c1_def c2_def c3_def c4_def c5_def c6_def c7_def c8_def c9_def c10_def c11_def c12_def c13_def by (rule refl)
  consider
      "c1"
    | "\<not> c1" "c2"
    | "\<not> c1" "\<not> c2" "c3"
    | "\<not> c1" "\<not> c2" "\<not> c3" "c4"
    | "\<not> c1" "\<not> c2" "\<not> c3" "\<not> c4" "c5"
    | "\<not> c1" "\<not> c2" "\<not> c3" "\<not> c4" "\<not> c5" "c6"
    | "\<not> c1" "\<not> c2" "\<not> c3" "\<not> c4" "\<not> c5" "\<not> c6" "c7"
    | "\<not> c1" "\<not> c2" "\<not> c3" "\<not> c4" "\<not> c5" "\<not> c6" "\<not> c7" "c8"
    | "\<not> c1" "\<not> c2" "\<not> c3" "\<not> c4" "\<not> c5" "\<not> c6" "\<not> c7" "\<not> c8" "c9"
    | "\<not> c1" "\<not> c2" "\<not> c3" "\<not> c4" "\<not> c5" "\<not> c6" "\<not> c7" "\<not> c8" "\<not> c9" "c10"
    | "\<not> c1" "\<not> c2" "\<not> c3" "\<not> c4" "\<not> c5" "\<not> c6" "\<not> c7" "\<not> c8" "\<not> c9" "\<not> c10" "c11"
    | "\<not> c1" "\<not> c2" "\<not> c3" "\<not> c4" "\<not> c5" "\<not> c6" "\<not> c7" "\<not> c8" "\<not> c9" "\<not> c10" "\<not> c11" "c12"
    | "\<not> c1" "\<not> c2" "\<not> c3" "\<not> c4" "\<not> c5" "\<not> c6" "\<not> c7" "\<not> c8" "\<not> c9" "\<not> c10" "\<not> c11" "\<not> c12" "c13"
    | "\<not> c1" "\<not> c2" "\<not> c3" "\<not> c4" "\<not> c5" "\<not> c6" "\<not> c7" "\<not> c8" "\<not> c9" "\<not> c10" "\<not> c11" "\<not> c12" "\<not> c13"
    by blast
  then show thesis
  proof cases
    case 1
    then have "parse_element p el m = parse_metar el m"
      unfolding pe by simp
    with 1 show thesis
      unfolding c1_def using that(1) by blast
  next
    case 2
    then have "parse_element p el m = parse_icao el m"
      unfolding pe by simp
    with 2 show thesis
      unfolding c2_def using that(2) by blast
  next
    case 3
    then have "parse_element p el m = parse_ot el m"
      unfolding pe by simp
    with 3 show thesis
      unfolding c3_def using that(3) by blast
  next
    case 4
    then have "parse_element p el m = parse_wind el m"
      unfolding pe by simp
    with 4 show thesis
      unfolding c4_def using that(4) by blast
  next
    case 5
    then have "parse_element p el m = parse_wind_var el m"
      unfolding pe by simp
    with 5 show thesis
      unfolding c5_def using that(5) by blast
  next
    case 6
    then have "parse_element p el m = parse_vis el m"
      unfolding pe by simp
    with 6 show thesis
      unfolding c6_def using that(6) by blast
  next
    case 7
    then have "parse_element p el m = parse_cloud_layer el p m"
      unfolding pe by simp
    with 7 show thesis
      unfolding c7_def using that(7) by blast
  next
    case 8
    then have "parse_element p el m = parse_vert_vis el m"
      unfolding pe by simp
    with 8 show thesis
      unfolding c8_def using that(8) by blast
  next
    case 9
    then have "parse_element p el m = parse_temp el m"
      unfolding pe by simp
    with 9 show thesis
      unfolding c9_def using that(9) by blast
  next
    case 10
    then have "parse_element p el m = parse_alt el m"
      unfolding pe by simp
    with 10 show thesis
      unfolding c10_def using that(10) by blast
  next
    case 11
    then have "parse_element p el m = parse_alt el m"
      unfolding pe by simp
    with 11 show thesis
      unfolding c11_def using that(11) by blast
  next
    case 12
    then have "parse_element p el m = parse_slp el m"
      unfolding pe by simp
    with 12 show thesis
      unfolding c12_def using that(12) by blast
  next
    case 13
    then have "parse_element p el m = parse_tempNA el m"
      unfolding pe by simp
    with 13 show thesis
      unfolding c13_def using that(13) by blast
  next
    case 14
    then have "parse_element p el m = m"
      unfolding pe by simp
    then show thesis
      by (rule that(14))
  qed
qed


subsection \<open>Visibility and CAVOK\<close>

lemma parse_vis_cavok: "m_cavok (parse_vis el m) = (el = ''CAVOK'' \<or> m_cavok m)"
  by (cases "strstr el VIS_UNITS_SM"; cases "strstr el ''/''"; cases "m_previous_element m")
    (simp_all add: parse_vis_def Let_def)

lemma parse_vis_CAVOK: "m_vis (parse_vis ''CAVOK'' m) = m_vis m"
  by (simp add: parse_vis_def)

lemma vis_cavok_element:
  "(m_vis (parse_element p el m) = m_vis m \<and> m_cavok (parse_element p el m) = m_cavok m)
   \<or> (\<not> hasVisibility m \<and> \<not> m_cavok m \<and>
       (if el = ''CAVOK''
        then m_cavok (parse_element p el m) \<and> m_vis (parse_element p el m) = m_vis m
        else \<not> m_cavok (parse_element p el m)))"
  by (cases rule: parse_element_cases[where m = m and el = el and p = p])
    (auto simp add: frames simple_parser_defs parse_vis_cavok parse_vis_CAVOK)

lemma vis_cavok_step:
  "(m_vis (parse_step mem m tk) = m_vis m \<and> m_cavok (parse_step mem m tk) = m_cavok m)
   \<or> (\<not> hasVisibility m \<and> \<not> m_cavok m \<and>
       (if fst tk = ''CAVOK''
        then m_cavok (parse_step mem m tk) \<and> m_vis (parse_step mem m tk) = m_vis m
        else \<not> m_cavok (parse_step mem m tk)))"
proof (cases tk)
  case (Pair el behind)
  show ?thesis
    using vis_cavok_element[of "token_memory mem el behind" el m]
    unfolding Pair parse_step_def by auto
qed

lemma vis_cavok_fold:
  shows "\<not> (hasVisibility m \<and> m_cavok m) \<Longrightarrow>
      \<not> (hasVisibility (foldl (parse_step mem) m tks) \<and> m_cavok (foldl (parse_step mem) m tks))"
    and "m_cavok m \<Longrightarrow> \<not> hasVisibility m \<Longrightarrow>
      m_cavok (foldl (parse_step mem) m tks) \<and> \<not> hasVisibility (foldl (parse_step mem) m tks)"
proof (induction tks arbitrary: m)
  case Nil
  { case 1 then show ?case by simp }
  { case 2 then show ?case by simp }
next
  case (Cons tk tks)
  { case 1
    have "\<not> (hasVisibility (parse_step mem m tk) \<and> m_cavok (parse_step mem m tk))"
      using 1 vis_cavok_step[of mem m tk] by (auto simp: hasVisibility_def split: if_splits)
    then show ?case
      using Cons.IH(1)[of "parse_step mem m tk"] by simp }
  { case 2
    have "m_cavok (parse_step mem m tk)" "\<not> hasVisibility (parse_step mem m tk)"
      using 2 vis_cavok_step[of mem m tk] by (auto simp: hasVisibility_def)
    then show ?case
      using Cons.IH(2)[of "parse_step mem m tk"] by simp }
qed

subsection \<open>A field that is present stays as it is\<close>

lemma stable_step:
  "hasMETAR m \<Longrightarrow> m_metar (parse_step mem m tk) = m_metar m"
  "hasMinute m \<Longrightarrow>
     (m_day (parse_step mem m tk), m_hour (parse_step mem m tk), m_min (parse_step mem m tk)) =
     (m_day m, m_hour m, m_min m)"
  "hasWindSpeed m \<Longrightarrow>
     (m_wind_dir (parse_step mem m tk), m_wind_spd (parse_step mem m tk),
      m_gust (parse_step mem m tk), m_wind_speed_units (parse_step mem m tk),
      m_vrb (parse_step mem m tk)) =
     (m_wind_dir m, m_wind_spd m, m_gust m, m_wind_speed_units m, m_vrb m)"
  "hasMinWindDirection m \<Longrightarrow>
     (m_min_wind_dir (parse_step mem m tk), m_max_wind_dir (parse_step mem m tk)) =
     (m_min_wind_dir m, m_max_wind_dir m)"
  "hasVisibility m \<Longrightarrow>
     (m_vis (parse_step mem m tk), m_vis_units (parse_step mem m tk),
      m_vis_lt (parse_step mem m tk), m_cavok (parse_step mem m tk)) =
     (m_vis m, m_vis_units m, m_vis_lt m, m_cavok m)"
  "hasVerticalVisibility m \<Longrightarrow> m_vert_vis (parse_step mem m tk) = m_vert_vis m"
  "hasTemperatureNA m \<Longrightarrow>
     (m_ftemp (parse_step mem m tk), m_fdew (parse_step mem m tk)) = (m_ftemp m, m_fdew m)"
  by (cases rule: parse_element_cases[where m = m and el = "fst tk"
          and p = "token_memory mem (fst tk) (snd tk)"];
      simp add: parse_step_def frames simple_parser_defs)+

lemma stable_fold:
  "hasMETAR m \<Longrightarrow> m_metar (foldl (parse_step mem) m tks) = m_metar m"
  "hasICAO m \<Longrightarrow> m_icao (foldl (parse_step mem) m tks) = m_icao m"
  "hasMinute m \<Longrightarrow>
     (\<lambda>m. (m_day m, m_hour m, m_min m)) (foldl (parse_step mem) m tks) =
     (m_day m, m_hour m, m_min m)"
  "hasWindSpeed m \<Longrightarrow>
     (\<lambda>m. (m_wind_dir m, m_wind_spd m, m_gust m, m_wind_speed_units m, m_vrb m))
       (foldl (parse_step mem) m tks) =
     (m_wind_dir m, m_wind_spd m, m_gust m, m_wind_speed_units m, m_vrb m)"
  "hasMinWindDirection m \<Longrightarrow>
     (\<lambda>m. (m_min_wind_dir m, m_max_wind_dir m)) (foldl (parse_step mem) m tks) =
     (m_min_wind_dir m, m_max_wind_dir m)"
  "hasVisibility m \<Longrightarrow>
     (\<lambda>m. (m_vis m, m_vis_units m, m_vis_lt m, m_cavok m)) (foldl (parse_step mem) m tks) =
     (m_vis m, m_vis_units m, m_vis_lt m, m_cavok m)"
  "hasVerticalVisibility m \<Longrightarrow> m_vert_vis (foldl (parse_step mem) m tks) = m_vert_vis m"
  "hasTemperature m \<Longrightarrow>
     (\<lambda>m. (m_temp m, m_dew m)) (foldl (parse_step mem) m tks) = (m_temp m, m_dew m)"
  "hasAltimeterA m \<Longrightarrow> m_altimeterA (foldl (parse_step mem) m tks) = m_altimeterA m"
  "hasAltimeterQ m \<Longrightarrow> m_altimeterQ (foldl (parse_step mem) m tks) = m_altimeterQ m"
  "hasSeaLevelPressure m \<Longrightarrow> m_slp (foldl (parse_step mem) m tks) = m_slp m"
  "hasTemperatureNA m \<Longrightarrow>
     (\<lambda>m. (m_ftemp m, m_fdew m)) (foldl (parse_step mem) m tks) = (m_ftemp m, m_fdew m)"
proof -
  show "hasMETAR m \<Longrightarrow> m_metar (foldl (parse_step mem) m tks) = m_metar m"
    by (rule foldl_keep[where H = "\<lambda>v. v \<noteq> []"])
      (use stable_step(1) in \<open>simp_all add: hasMETAR_def\<close>)
  show "hasICAO m \<Longrightarrow> m_icao (foldl (parse_step mem) m tks) = m_icao m"
    by (rule foldl_keep[where H = "\<lambda>v. v \<noteq> []"]) (simp_all add: icao_step hasICAO_def)
  show "hasMinute m \<Longrightarrow>
     (\<lambda>m. (m_day m, m_hour m, m_min m)) (foldl (parse_step mem) m tks) =
     (m_day m, m_hour m, m_min m)"
    by (rule foldl_keep[where H = "\<lambda>v. snd (snd v) \<noteq> INTEGER_UNDEFINED"
          and g = "\<lambda>m. (m_day m, m_hour m, m_min m)"])
      (use stable_step(2) in \<open>simp_all add: hasMinute_def\<close>)
  show "hasWindSpeed m \<Longrightarrow>
     (\<lambda>m. (m_wind_dir m, m_wind_spd m, m_gust m, m_wind_speed_units m, m_vrb m))
       (foldl (parse_step mem) m tks) =
     (m_wind_dir m, m_wind_spd m, m_gust m, m_wind_speed_units m, m_vrb m)"
    by (rule foldl_keep[where H = "\<lambda>v. fst (snd v) \<noteq> INTEGER_UNDEFINED"
          and g = "\<lambda>m. (m_wind_dir m, m_wind_spd m, m_gust m, m_wind_speed_units m, m_vrb m)"])
      (use stable_step(3) in \<open>simp_all add: hasWindSpeed_def\<close>)
  show "hasMinWindDirection m \<Longrightarrow>
     (\<lambda>m. (m_min_wind_dir m, m_max_wind_dir m)) (foldl (parse_step mem) m tks) =
     (m_min_wind_dir m, m_max_wind_dir m)"
    by (rule foldl_keep[where H = "\<lambda>v. fst v \<noteq> INTEGER_UNDEFINED"
          and g = "\<lambda>m. (m_min_wind_dir m, m_max_wind_dir m)"])
      (use stable_step(4) in \<open>simp_all add: hasMinWindDirection_def\<close>)
  show "hasVisibility m \<Longrightarrow>
     (\<lambda>m. (m_vis m, m_vis_units m, m_vis_lt m, m_cavok m)) (foldl (parse_step mem) m tks) =
     (m_vis m, m_vis_units m, m_vis_lt m, m_cavok m)"
    by (rule foldl_keep[where H = "\<lambda>v. fst v \<noteq> DOUBLE_UNDEFINED"
          and g = "\<lambda>m. (m_vis m, m_vis_units m, m_vis_lt m, m_cavok m)"])
      (use stable_step(5) in \<open>simp_all add: hasVisibility_def\<close>)
  show "hasVerticalVisibility m \<Longrightarrow> m_vert_vis (foldl (parse_step mem) m tks) = m_vert_vis m"
    by (rule foldl_keep[where H = "\<lambda>v. v \<noteq> INTEGER_UNDEFINED"])
      (use stable_step(6) in \<open>simp_all add: hasVerticalVisibility_def\<close>)
  show "hasTemperature m \<Longrightarrow>
     (\<lambda>m. (m_temp m, m_dew m)) (foldl (parse_step mem) m tks) = (m_temp m, m_dew m)"
    by (rule foldl_keep[where H = "\<lambda>v. fst v \<noteq> INTEGER_UNDEFINED"
          and g = "\<lambda>m. (m_temp m, m_dew m)"])
      (use temp_step in \<open>simp_all add: hasTemperature_def\<close>)
  show "hasAltimeterA m \<Longrightarrow> m_altimeterA (foldl (parse_step mem) m tks) = m_altimeterA m"
    by (rule foldl_keep[where H = "\<lambda>v. v \<noteq> DOUBLE_UNDEFINED"])
      (simp_all add: altA_step hasAltimeterA_def)
  show "hasAltimeterQ m \<Longrightarrow> m_altimeterQ (foldl (parse_step mem) m tks) = m_altimeterQ m"
    by (rule foldl_keep[where H = "\<lambda>v. v \<noteq> INTEGER_UNDEFINED"])
      (simp_all add: altQ_step hasAltimeterQ_def)
  show "hasSeaLevelPressure m \<Longrightarrow> m_slp (foldl (parse_step mem) m tks) = m_slp m"
    by (rule foldl_keep[where H = "\<lambda>v. v \<noteq> DOUBLE_UNDEFINED"])
      (simp_all add: slp_step hasSeaLevelPressure_def)
  show "hasTemperatureNA m \<Longrightarrow>
     (\<lambda>m. (m_ftemp m, m_fdew m)) (foldl (parse_step mem) m tks) = (m_ftemp m, m_fdew m)"
    by (rule foldl_keep[where H = "\<lambda>v. fst v \<noteq> DOUBLE_UNDEFINED"
          and g = "\<lambda>m. (m_ftemp m, m_fdew m)"])
      (use stable_step(7) in \<open>simp_all add: hasTemperatureNA_def\<close>)
qed

subsection \<open>The table of guarded branches\<close>

lemma Metar_report_after: "Metar mem s = report_after mem (token_list s)"
  by (simp add: Metar_fold report_after_def token_list_def)

lemma report_after_append:
  "report_after mem (tks @ rest) = foldl (parse_step mem) (report_after mem tks) rest"
  by (simp add: report_after_def)

lemma parse_alt_A: "is_altA el \<Longrightarrow> m_altimeterQ (parse_alt el m) = m_altimeterQ m"
  using is_altA_only(13)[of el] by (simp add: parse_alt_def)

lemma parse_alt_Q: "is_altQ el \<Longrightarrow> m_altimeterA (parse_alt el m) = m_altimeterA m"
  using is_altQ_only(13)[of el] by (simp add: parse_alt_def)

lemma keep_stable:
  assumes "present f m"
  shows "keep f (foldl (parse_step mem) m tks) = keep f m"
  using assms stable_fold[of m mem tks] by (cases f) simp_all

lemma present_keep: "present f m = present f (keep f m)"
  by (cases f) (simp_all add: has_defs)

lemma first_element:
  "\<not> present f m \<Longrightarrow> present f (parse_element p el m) \<Longrightarrow>
     shape f el \<and> parse_element p el m = parser f el m"
  by (cases f; cases rule: parse_element_cases[where m = m and el = el and p = p];
      simp add: all_frames has_defs parse_alt_A parse_alt_Q)

lemma first_step:
  assumes "\<not> present f m" "present f (parse_step mem m tk)"
  shows "shape f (fst tk) \<and> keep f (parse_step mem m tk) = keep f (parser f (fst tk) m)"
proof -
  let ?r = "parse_element (token_memory mem (fst tk) (snd tk)) (fst tk) m"
  have k: "keep f (parse_step mem m tk) = keep f ?r"
    by (cases f) (simp_all add: parse_step_def)
  then have "present f ?r"
    using assms(2) present_keep[of f "parse_step mem m tk"] present_keep[of f ?r] by simp
  then show ?thesis
    using first_element[OF assms(1), of "token_memory mem (fst tk) (snd tk)" "fst tk"] k
    by simp
qed

subsection \<open>Fractions of a statute mile\<close>

lemma read_digits_append:
  "list_all isdigit N \<Longrightarrow> \<not> isdigit c \<Longrightarrow> read_digits acc (N @ c # rest) = read_digits acc N"
  by (induction N arbitrary: acc) simp_all

lemma read_digits_bounds:
  "0 \<le> acc \<Longrightarrow> 0 \<le> read_digits acc N \<and> read_digits acc N < (acc + 1) * 10 ^ length N"
proof (induction N arbitrary: acc)
  case Nil
  then show ?case by simp
next
  case (Cons c N)
  show ?case
  proof (cases "isdigit c")
    case True
    let ?a = "acc * 10 + digit_value c"
    have r: "0 \<le> ?a" "?a + 1 \<le> (acc + 1) * 10"
      using Cons.prems digit_value_range[OF True] by simp_all
    have "(?a + 1) * 10 ^ length N \<le> ((acc + 1) * 10) * 10 ^ length N"
      using r(2) by (rule mult_right_mono) simp
    moreover have "(acc + 1) * 10 ^ length (c # N) = ((acc + 1) * 10) * 10 ^ length N"
      by simp
    ultimately have "read_digits ?a N < (acc + 1) * 10 ^ length (c # N)"
      using Cons.IH[OF r(1)] by linarith
    then show ?thesis
      using True Cons.IH[OF r(1)] by simp
  next
    case False
    have p: "(1::int) \<le> 10 ^ length (c # N)"
      by (rule one_le_power) simp
    have "acc < (acc + 1) * 1"
      by simp
    also have "\<dots> \<le> (acc + 1) * 10 ^ length (c # N)"
      using Cons.prems p by (intro mult_left_mono) simp_all
    finally show ?thesis
      using False Cons.prems by simp
  qed
qed

lemma atof_digits:
  assumes "list_all isdigit N" "N \<noteq> []" "\<not> isdigit c"
  shows "atof (N @ c # rest) = Fin (of_int (read_digits 0 N))"
proof (cases N)
  case Nil
  then show ?thesis using assms by simp
next
  case (Cons a N')
  have "atoi (a # N' @ c # rest) = read_digits 0 ((a # N') @ c # rest)"
    using assms(1) Cons by (simp add: atoi_digit del: read_digits.simps)
  then show ?thesis
    using read_digits_append[OF assms(1) assms(3), of 0 rest] Cons by (simp add: atof_def)
qed

lemma strstr_skip:
  "list_all (\<lambda>c. c \<noteq> hd needle) xs \<Longrightarrow> needle \<noteq> [] \<Longrightarrow>
     strstr (xs @ needle @ rest) needle = Some (length xs)"
proof (induction xs)
  case Nil
  then show ?case by (cases needle) simp_all
next
  case (Cons x xs)
  have "take (length needle) (x # xs @ needle @ rest) \<noteq> needle"
    using Cons.prems by (cases needle) auto
  then show ?case
    using Cons by simp
qed

lemma digit_in_body:
  "list_all isdigit N \<Longrightarrow> list_all (\<lambda>c. c \<noteq> CHR ''/'') N"
  "list_all isdigit N \<Longrightarrow> list_all (\<lambda>c. c \<noteq> CHR ''S'') N"
  "list_all isdigit N \<Longrightarrow> list_all (\<lambda>c. isdigit c \<or> c = CHR ''/'') N"
  by (induction N) (auto simp: isdigit_def)

lemma fraction_offsets:
  assumes "list_all isdigit N" "list_all isdigit D" "pre = [] \<or> pre = ''M''"
  shows "strstr (pre @ N @ ''/'' @ D @ ''SM'') ''SM'' = Some (length pre + length N + 1 + length D)"
    and "strstr (pre @ N @ ''/'' @ D @ ''SM'') ''/'' = Some (length pre + length N)"
proof -
  have "list_all (\<lambda>c. c \<noteq> hd ''SM'') (pre @ N @ ''/'' @ D)"
    using assms digit_in_body(2)[of N] digit_in_body(2)[of D] by auto
  then show "strstr (pre @ N @ ''/'' @ D @ ''SM'') ''SM'' = Some (length pre + length N + 1 + length D)"
    using strstr_skip[of "''SM''" "pre @ N @ ''/'' @ D" "[]"] by simp
  have "list_all (\<lambda>c. c \<noteq> hd ''/'') (pre @ N)"
    using assms digit_in_body(1)[of N] by auto
  then show "strstr (pre @ N @ ''/'' @ D @ ''SM'') ''/'' = Some (length pre + length N)"
    using strstr_skip[of "''/''" "pre @ N" "D @ ''SM''"] by simp
qed


lemma atof_digits_only:
  assumes "list_all isdigit N" "N \<noteq> []"
  shows "atof N = Fin (of_int (read_digits 0 N))"
  using assms by (cases N) (simp_all add: atof_def atoi_digit del: read_digits.simps)

lemma short_list_cases:
  assumes "xs \<noteq> []" "length xs \<le> 3"
  obtains a where "xs = [a]" | a b where "xs = [a, b]" | a b c where "xs = [a, b, c]"
proof (cases xs)
  case Nil
  then show ?thesis using assms by simp
next
  case 1: (Cons a xs1)
  show ?thesis
  proof (cases xs1)
    case Nil
    then show ?thesis using 1 that(1) by simp
  next
    case 2: (Cons b xs2)
    show ?thesis
    proof (cases xs2)
      case Nil
      then show ?thesis using 1 2 that(2) by simp
    next
      case (Cons c xs3)
      then show ?thesis using 1 2 assms(2) that(3) by simp
    qed
  qed
qed

lemma fraction_is_vis:
  assumes "list_all isdigit N" "N \<noteq> []" "list_all isdigit D" "pre = [] \<or> pre = ''M''"
  shows "is_vis (pre @ N @ ''/'' @ D @ ''SM'')"
proof -
  obtain a N' where N: "N = a # N'"
    using assms(2) by (cases N) auto
  have a: "isdigit a" "list_all isdigit N'"
    using assms(1) N by simp_all
  have b: "list_all (\<lambda>c. isdigit c \<or> c = CHR ''/'') (N' @ ''/'' @ D)"
    "list_all (\<lambda>c. isdigit c \<or> c = CHR ''/'') (N @ ''/'' @ D)"
    using digit_in_body(3)[OF a(2)] digit_in_body(3)[OF assms(1)] digit_in_body(3)[OF assms(3)]
    by simp_all
  show ?thesis
    using assms(4) a(1) b fraction_offsets(1)[OF assms(1) assms(3) assms(4)]
    by (auto simp add: is_vis_def VIS_UNITS_SM_def N char_facts)
qed

lemma fraction_not_earlier:
  assumes "list_all isdigit N" "N \<noteq> []" "pre = [] \<or> pre = ''M''" "length (pre @ N) \<le> 3"
  shows "\<not> is_metar (pre @ N @ ''/'' @ D @ ''SM'')"
    and "\<not> is_icao (pre @ N @ ''/'' @ D @ ''SM'')"
    and "\<not> is_ot (pre @ N @ ''/'' @ D @ ''SM'')"
    and "\<not> is_wind (pre @ N @ ''/'' @ D @ ''SM'')"
    and "\<not> is_wind_var (pre @ N @ ''/'' @ D @ ''SM'')"
proof -
  have l: "length N \<le> 3"
    using assms(4) by simp
  have "\<not> is_metar (pre @ N @ ''/'' @ D @ ''SM'') \<and> \<not> is_icao (pre @ N @ ''/'' @ D @ ''SM'')
    \<and> \<not> is_ot (pre @ N @ ''/'' @ D @ ''SM'') \<and> \<not> is_wind (pre @ N @ ''/'' @ D @ ''SM'')
    \<and> \<not> is_wind_var (pre @ N @ ''/'' @ D @ ''SM'')"
    using assms(1,3)
    by (cases rule: short_list_cases[OF assms(2) l])
      (auto simp add: is_metar_def is_icao_def is_ot_def is_wind_def is_wind_var_def
        match_character_def char_facts)
  then show "\<not> is_metar (pre @ N @ ''/'' @ D @ ''SM'')"
    and "\<not> is_icao (pre @ N @ ''/'' @ D @ ''SM'')"
    and "\<not> is_ot (pre @ N @ ''/'' @ D @ ''SM'')"
    and "\<not> is_wind (pre @ N @ ''/'' @ D @ ''SM'')"
    and "\<not> is_wind_var (pre @ N @ ''/'' @ D @ ''SM'')"
    by simp_all
qed

lemma parse_vis_fraction:
  assumes "list_all isdigit N" "N \<noteq> []" "list_all isdigit D" "D \<noteq> []"
    "pre = [] \<or> pre = ''M''"
  shows "m_vis (parse_vis (pre @ N @ ''/'' @ D @ ''SM'') m) =
      (case m_previous_element m of
         None \<Rightarrow> ddiv (Fin (of_int (read_digits 0 N))) (Fin (of_int (read_digits 0 D)))
       | Some prev \<Rightarrow>
           if match ''#'' prev
           then dadd (ddiv (Fin (of_int (read_digits 0 N))) (Fin (of_int (read_digits 0 D))))
                  (atof prev)
           else ddiv (Fin (of_int (read_digits 0 N))) (Fin (of_int (read_digits 0 D))))"
    and "m_vis_units (parse_vis (pre @ N @ ''/'' @ D @ ''SM'') m) = Some VIS_UNITS_SM"
    and "m_vis_lt (parse_vis (pre @ N @ ''/'' @ D @ ''SM'') m) = (pre = ''M'' \<or> m_vis_lt m)"
proof -
  let ?el = "pre @ N @ ''/'' @ D @ ''SM''"
  obtain a N' where N: "N = a # N'"
    using assms(2) by (cases N) auto
  have a: "isdigit a"
    using assms(1) N by simp
  have c: "?el \<noteq> ''CAVOK''"
    using assms(5) a by (auto simp add: N char_facts)
  have h: "(hd ?el = CHR ''M'') = (pre = ''M'')"
    using assms(5) a by (auto simp add: N char_facts)
  have u: "strstr ?el VIS_UNITS_SM = Some (length pre + length N + 1 + length D)"
    using fraction_offsets(1)[OF assms(1) assms(3) assms(5)] by (simp add: VIS_UNITS_SM_def)
  have p: "strstr ?el ''/'' = Some (length pre + length N)"
    by (rule fraction_offsets(2)[OF assms(1) assms(3) assms(5)])
  have den: "take (length pre + length N + 1 + length D - (length pre + length N))
      (drop (length pre + length N + 1) ?el) = D @ ''S''"
    by simp
  have num: "(if pre = ''M'' then take (length pre + length N) (drop 1 ?el)
              else take (length pre + length N) ?el) = (if pre = ''M'' then N @ ''/'' else N)"
    using assms(5) by auto
  have an: "atof (if pre = ''M'' then N @ ''/'' else N) = Fin (of_int (read_digits 0 N))"
    using atof_digits[OF assms(1) assms(2), of "CHR ''/''" "[]"]
      atof_digits_only[OF assms(1) assms(2)]
    by (simp add: char_facts)
  have ad: "atof (D @ ''S'') = Fin (of_int (read_digits 0 D))"
    using atof_digits[OF assms(3) assms(4), of "CHR ''S''" "[]"] by (simp add: char_facts)
  have e: "parse_vis ?el m =
     (let m1 = (if pre = ''M'' then m\<lparr>m_vis_lt := True\<rparr> else m);
          m2 = m1\<lparr>m_vis := ddiv (Fin (of_int (read_digits 0 N)))
                               (Fin (of_int (read_digits 0 D)))\<rparr>;
          m3 = (case m_previous_element m of
                  None \<Rightarrow> m2
                | Some prev \<Rightarrow>
                    if match ''#'' prev
                    then m2\<lparr>m_vis := dadd (m_vis m2) (atof prev)\<rparr>
                    else m2)
      in m3\<lparr>m_vis_units := Some VIS_UNITS_SM\<rparr>)"
    unfolding parse_vis_def using c
    by (simp only: u p option.case h den num an ad if_False Let_def)
  show "m_vis (parse_vis ?el m) =
      (case m_previous_element m of
         None \<Rightarrow> ddiv (Fin (of_int (read_digits 0 N))) (Fin (of_int (read_digits 0 D)))
       | Some prev \<Rightarrow>
           if match ''#'' prev
           then dadd (ddiv (Fin (of_int (read_digits 0 N))) (Fin (of_int (read_digits 0 D))))
                  (atof prev)
           else ddiv (Fin (of_int (read_digits 0 N))) (Fin (of_int (read_digits 0 D))))"
    unfolding e by (simp add: Let_def split: option.split)
  show "m_vis_units (parse_vis ?el m) = Some VIS_UNITS_SM"
    unfolding e by (simp add: Let_def split: option.split)
  show "m_vis_lt (parse_vis ?el m) = (pre = ''M'' \<or> m_vis_lt m)"
    unfolding e by (simp add: Let_def split: option.split)
qed

lemma fraction_element:
  assumes "list_all isdigit N" "N \<noteq> []" "list_all isdigit D" "pre = [] \<or> pre = ''M''"
    "length (pre @ N) \<le> 3" "\<not> hasVisibility m" "\<not> m_cavok m"
  shows "parse_element p (pre @ N @ ''/'' @ D @ ''SM'') m =
           parse_vis (pre @ N @ ''/'' @ D @ ''SM'') m"
  using fraction_not_earlier[OF assms(1,2,4,5), of D] fraction_is_vis[OF assms(1,2,3,4)] assms(6,7)
  by (simp only: parse_element_def simp_thms if_False if_True)

lemma previous_element_report_after:
  "m_previous_element (report_after mem tks) = (if tks = [] then None else Some (fst (last tks)))"
  by (cases tks rule: rev_cases) (simp_all add: report_after_def parse_step_def Metar_init_def)

lemma fraction_defined:
  assumes "list_all isdigit N" "length N \<le> 3" "read_digits 0 D \<noteq> 0" "w \<le> 9"
  shows "Fin (of_int (read_digits 0 N) / of_int (read_digits 0 D) + of_int w) \<noteq> DOUBLE_UNDEFINED"
proof -
  let ?n = "read_digits 0 N" and ?d = "read_digits 0 D"
  have "(10::int) ^ length N \<le> 10 ^ 3"
    using assms(2) by (intro power_increasing) simp_all
  then have n: "0 \<le> ?n" "?n \<le> 1000"
    using read_digits_bounds[of 0 N] by simp_all
  have d: "1 \<le> ?d"
    using read_digits_bounds[of 0 D] assms(3) by simp
  have "(of_int ?n :: rat) / of_int ?d \<le> of_int ?n / 1"
    using n(1) d by (intro divide_left_mono) simp_all
  also have "\<dots> \<le> 1000"
    using n(2) by simp
  finally have "(of_int ?n :: rat) / of_int ?d + of_int w \<le> 1000 + 9"
    using assms(4) by (intro add_mono) simp_all
  then show ?thesis
    by (intro small_defined) simp
qed

section \<open>The claims\<close>

subsection \<open>C1: a full report\<close>


subsection \<open>C7: rain and snow\<close>

lemma phenom_intensity_RASN: "phenom_intensity ''RASN'' = (NORMAL, ''RASN'')"
  by (simp add: phenom_intensity_def)

lemma strip_qualifier_RASN: "foldl strip_qualifier (''RASN'', b) phenom_qualifiers = (''RASN'', b)"
  by (simp add: phenom_qualifiers_def strip_qualifier_def)

text \<open>
  C7. The phenomenon token \<^verbatim>\<open>RASN\<close> decodes to exactly one occurrence, of kind SLEET and
  of NORMAL intensity, with no qualifier set; it does not decode to a RAIN and a SNOW
  occurrence.
\<close>

theorem phenom_RASN:
  "phenom_decode ''RASN'' =
     [\<lparr>p_kind = SLEET, p_intensity = NORMAL,
       p_blowing = False, p_freezing = False, p_drifting = False,
       p_vicinity = False, p_shower = False, p_partial = False,
       p_shallow = False, p_patches = False, p_thunderstorm = False\<rparr>]"
  by (simp add: phenom_decode_def phenom_intensity_RASN strip_qualifier_RASN
        phenom_vocabulary_def)


subsection \<open>C10: the station identifier\<close>

text \<open>
  C10. For every input string, the station identifier is present if and only if some token
  consists of exactly four alphabetic characters, and it is then the first such token,
  station or not: in \<^verbatim>\<open>RASN KORD\<close> the weather code RASN becomes the identifier.
\<close>

theorem icao_is_first_four_letter_token:
  "(hasICAO (Metar mem s) \<longleftrightarrow> list_ex is_icao (tokens s))
   \<and> m_icao (Metar mem s) = (case find is_icao (tokens s) of None \<Rightarrow> [] | Some t \<Rightarrow> t)
   \<and> (is_icao el \<longleftrightarrow> length el = 4 \<and> list_all isalpha el)
   \<and> m_icao (Metar mem ''RASN KORD'') = ''RASN''"
proof -
  have "m_icao (foldl (parse_step mem) Metar_init tks) =
      (case find is_icao (map fst tks) of None \<Rightarrow> m_icao Metar_init | Some t \<Rightarrow> t)" for tks
    by (rule foldl_first[where H = "\<lambda>v. v \<noteq> []" and D = "\<lambda>t v. t"])
      (auto simp: icao_step is_icao_iff Metar_init_def)
  then have first:
    "m_icao (Metar mem s) = (case find is_icao (tokens s) of None \<Rightarrow> [] | Some t \<Rightarrow> t)" for s
    unfolding Metar_fold tokens_def by (simp add: Metar_init_def split: option.split)
  have "hasICAO (Metar mem s) \<longleftrightarrow> list_ex is_icao (tokens s)"
  proof (cases "find is_icao (tokens s)")
    case None
    then have "\<not> list_ex is_icao (tokens s)"
      by (simp add: find_None_list_ex)
    with None show ?thesis
      using first[of s] by (simp add: hasICAO_def)
  next
    case (Some t)
    then have "is_icao t" "list_ex is_icao (tokens s)"
      using find_Some_list_ex[of is_icao "tokens s" t] by simp_all
    then show ?thesis
      using first[of s] Some by (auto simp: hasICAO_def is_icao_iff)
  qed
  moreover have "is_icao el \<longleftrightarrow> length el = 4 \<and> list_all isalpha el"
    by (auto simp: is_icao_def match_character_def split: list.splits)
  moreover have "m_icao (Metar mem ''RASN KORD'') = ''RASN''"
    unfolding first
    by (simp add: tokens_def strtok_all_code NUL_def is_icao_def match_character_def isalpha_def)
  ultimately show ?thesis
    using first by blast
qed

subsection \<open>C9: the sea-level pressure\<close>

text \<open>
  C9. When the first token of the input that has the shape SLP followed by three digits is
  \<^verbatim>\<open>SLPabc\<close>, the sea-level pressure is present in the decoded report and equals
  \<open>abc / 10 + 1000\<close>, the three digits read as a number: the formula is applied as it
  stands.
\<close>

theorem slp_value:
  assumes "isdigit a" "isdigit b" "isdigit c"
    and "find is_slp (tokens s) = Some (''SLP'' @ [a, b, c])"
  shows "hasSeaLevelPressure (Metar mem s)
    \<and> m_slp (Metar mem s) =
        Fin (of_int (100 * digit_value a + 10 * digit_value b + digit_value c) / 10 + 1000)"
proof -
  let ?D = "\<lambda>t (v::double). dadd (ddiv (atof (drop 3 t)) (Fin 10)) (Fin 1000)"
  have val: "?D (''SLP'' @ [x, y, z]) v =
      Fin (of_int (100 * digit_value x + 10 * digit_value y + digit_value z) / 10 + 1000)"
    if "isdigit x" "isdigit y" "isdigit z" for x y z v
    using read_digits_3(1)[OF that] by (simp add: atof_def)
  have def: "?D t v \<noteq> DOUBLE_UNDEFINED" if slp: "is_slp t" for t v
  proof -
    obtain x y z where t: "t = ''SLP'' @ [x, y, z]" and d: "isdigit x" "isdigit y" "isdigit z"
      using slp by (auto simp: is_slp_iff)
    have "of_int (100 * digit_value x + 10 * digit_value y + digit_value z) / 10 + 1000
            \<le> (100000 :: rat)"
      using read_digits_3[OF d] by simp
    then show ?thesis
      unfolding t val[OF d] by (rule small_defined)
  qed
  have "m_slp (foldl (parse_step mem) Metar_init tks) =
      (case find is_slp (map fst tks) of None \<Rightarrow> m_slp Metar_init
       | Some t \<Rightarrow> ?D t (m_slp Metar_init))" for tks
    by (rule foldl_first[where H = "\<lambda>v. v \<noteq> DOUBLE_UNDEFINED"])
      (use def in \<open>simp_all add: slp_step Metar_init_def\<close>)
  then have "m_slp (Metar mem s) = ?D (''SLP'' @ [a, b, c]) (m_slp Metar_init)"
    unfolding Metar_fold using assms(4) by (simp add: tokens_def)
  then have "m_slp (Metar mem s) =
      Fin (of_int (100 * digit_value a + 10 * digit_value b + digit_value c) / 10 + 1000)"
    using val[OF assms(1-3)] by simp
  moreover have "is_slp (''SLP'' @ [a, b, c])"
    using assms(1-3) by (auto simp: is_slp_iff)
  ultimately show ?thesis
    using def[of "''SLP'' @ [a, b, c]"] val[OF assms(1-3)]
    by (simp add: hasSeaLevelPressure_def)
qed

theorem slp_value_witness:
  "hasSeaLevelPressure (Metar zero_memory ''KSTL SLP177 SLP260'')
   \<and> m_slp (Metar zero_memory ''KSTL SLP177 SLP260'') = Fin (10177 / 10)"
proof -
  have d: "isdigit CHR ''1''" "isdigit CHR ''7''"
    by (simp_all add: isdigit_def)
  have f: "find is_slp (tokens ''KSTL SLP177 SLP260'') = Some (''SLP'' @ [CHR ''1'', CHR ''7'', CHR ''7''])"
    by (simp add: tokens_def strtok_all_code NUL_def is_slp_def match_character_def isdigit_def)
  show ?thesis
    using slp_value[OF d(1) d(2) d(2) f, of zero_memory] by (simp add: digit_value_def)
qed

subsection \<open>C5: the two altimeter settings\<close>

text \<open>
  C5, as the code has it. For every input string the altimeter in inches of mercury is
  present exactly when some token has the shape A and four digits, and the altimeter in
  hectopascals exactly when some token has the shape Q and four digits, each independently
  of the other. Hence both are present for an input with both kinds of token, and at most
  one is present for an input with one kind only.
\<close>

theorem altimeters_independent:
  "(hasAltimeterA (Metar mem s) \<longleftrightarrow> list_ex is_altA (tokens s))
   \<and> (hasAltimeterQ (Metar mem s) \<longleftrightarrow> list_ex is_altQ (tokens s))"
proof -
  let ?DA = "\<lambda>t (v::double). ddiv (Fin (of_int (atoi (drop 1 t)))) (Fin 100)"
  let ?DQ = "\<lambda>t (v::int). atoi (drop 1 t)"
  have defA: "?DA t v \<noteq> DOUBLE_UNDEFINED" if altA: "is_altA t" for t v
  proof -
    obtain a b c d where t: "t = ''A'' @ [a, b, c, d]"
      and d: "isdigit a" "isdigit b" "isdigit c" "isdigit d"
      using altA by (auto simp: is_altA_iff)
    have "(of_int (atoi [a, b, c, d]) :: rat) / 100 \<le> 100000"
      using read_digits_4(3)[OF d] by simp
    then show ?thesis
      unfolding t using small_defined by simp
  qed
  have defQ: "?DQ t v \<noteq> INTEGER_UNDEFINED" if altQ: "is_altQ t" for t v
  proof -
    obtain a b c d where t: "t = ''Q'' @ [a, b, c, d]"
      and d: "isdigit a" "isdigit b" "isdigit c" "isdigit d"
      using altQ by (auto simp: is_altQ_iff)
    show ?thesis
      unfolding t using read_digits_4(2)[OF d] nonneg_defined by simp
  qed
  have "m_altimeterA (foldl (parse_step mem) Metar_init tks) =
      (case find is_altA (map fst tks) of None \<Rightarrow> m_altimeterA Metar_init
       | Some t \<Rightarrow> ?DA t (m_altimeterA Metar_init))" for tks
    by (rule foldl_first[where H = "\<lambda>v. v \<noteq> DOUBLE_UNDEFINED"])
      (use defA in \<open>simp_all add: altA_step Metar_init_def\<close>)
  then have A: "m_altimeterA (Metar mem s) =
      (case find is_altA (tokens s) of None \<Rightarrow> DOUBLE_UNDEFINED | Some t \<Rightarrow> ?DA t DOUBLE_UNDEFINED)"
    unfolding Metar_fold tokens_def by (simp add: Metar_init_def split: option.split)
  have "m_altimeterQ (foldl (parse_step mem) Metar_init tks) =
      (case find is_altQ (map fst tks) of None \<Rightarrow> m_altimeterQ Metar_init
       | Some t \<Rightarrow> ?DQ t (m_altimeterQ Metar_init))" for tks
    by (rule foldl_first[where H = "\<lambda>v. v \<noteq> INTEGER_UNDEFINED"])
      (use defQ in \<open>simp_all add: altQ_step Metar_init_def\<close>)
  then have Q: "m_altimeterQ (Metar mem s) =
      (case find is_altQ (tokens s) of None \<Rightarrow> INTEGER_UNDEFINED | Some t \<Rightarrow> ?DQ t INTEGER_UNDEFINED)"
    unfolding Metar_fold tokens_def by (simp add: Metar_init_def split: option.split)
  have "hasAltimeterA (Metar mem s) \<longleftrightarrow> list_ex is_altA (tokens s)"
  proof (cases "find is_altA (tokens s)")
    case None
    then have "\<not> list_ex is_altA (tokens s)"
      by (simp add: find_None_list_ex)
    with None show ?thesis
      using A by (simp add: hasAltimeterA_def)
  next
    case (Some t)
    then have "is_altA t" "list_ex is_altA (tokens s)"
      using find_Some_list_ex[of is_altA "tokens s" t] by simp_all
    then show ?thesis
      using A Some defA[of t] by (simp add: hasAltimeterA_def)
  qed
  moreover have "hasAltimeterQ (Metar mem s) \<longleftrightarrow> list_ex is_altQ (tokens s)"
  proof (cases "find is_altQ (tokens s)")
    case None
    then have "\<not> list_ex is_altQ (tokens s)"
      by (simp add: find_None_list_ex)
    with None show ?thesis
      using Q by (simp add: hasAltimeterQ_def)
  next
    case (Some t)
    then have "is_altQ t" "list_ex is_altQ (tokens s)"
      using find_Some_list_ex[of is_altQ "tokens s" t] by simp_all
    then show ?thesis
      using Q Some defQ[of t] by (simp add: hasAltimeterQ_def)
  qed
  ultimately show ?thesis
    by simp
qed

text \<open>
  C5 as stated fails: the report \<^verbatim>\<open>A3029 Q1020\<close> decodes to 30.29 inches of mercury and
  to 1020 hectopascals, both present.
\<close>

theorem altimeters_exclusive_counterexample:
  "hasAltimeterA (Metar zero_memory ''A3029 Q1020'')
   \<and> hasAltimeterQ (Metar zero_memory ''A3029 Q1020'')
   \<and> m_altimeterA (Metar zero_memory ''A3029 Q1020'') = Fin (3029 / 100)
   \<and> m_altimeterQ (Metar zero_memory ''A3029 Q1020'') = 1020"
  by (simp add: run_defs)

subsection \<open>C4: temperature and dew point\<close>

text \<open>
  C4, as the code has it. Let the first temperature-shaped token of the input be made of
  a left side, a slash and a right side, where the left side is two digits or M and two
  digits, and the right side is empty, or two digits behind a left side without M, or M
  and two digits. Then the temperature is the signed left value, and the dew point is the
  signed right value, or absent when the right side is empty. (The five shapes are those
  of \<^verbatim>\<open>is_temp\<close>: \<^verbatim>\<open>##/##\<close>, \<^verbatim>\<open>##/M##\<close>, \<^verbatim>\<open>M##/M##\<close>, \<^verbatim>\<open>##/\<close> and
  \<^verbatim>\<open>M##/\<close>.)
\<close>

theorem temperature_shapes:
  assumes "isdigit a" "isdigit b" "isdigit c" "isdigit d"
  shows
    "(find is_temp (tokens s) = Some ([a, b] @ ''/'' @ [c, d]) \<longrightarrow>
        hasTemperature (Metar mem s) \<and> hasDewPoint (Metar mem s) \<and>
        m_temp (Metar mem s) = 10 * digit_value a + digit_value b \<and>
        m_dew (Metar mem s) = 10 * digit_value c + digit_value d)
     \<and> (find is_temp (tokens s) = Some ([a, b] @ ''/M'' @ [c, d]) \<longrightarrow>
        hasTemperature (Metar mem s) \<and> hasDewPoint (Metar mem s) \<and>
        m_temp (Metar mem s) = 10 * digit_value a + digit_value b \<and>
        m_dew (Metar mem s) = - (10 * digit_value c + digit_value d))
     \<and> (find is_temp (tokens s) = Some (''M'' @ [a, b] @ ''/M'' @ [c, d]) \<longrightarrow>
        hasTemperature (Metar mem s) \<and> hasDewPoint (Metar mem s) \<and>
        m_temp (Metar mem s) = - (10 * digit_value a + digit_value b) \<and>
        m_dew (Metar mem s) = - (10 * digit_value c + digit_value d))
     \<and> (find is_temp (tokens s) = Some ([a, b] @ ''/'') \<longrightarrow>
        hasTemperature (Metar mem s) \<and> \<not> hasDewPoint (Metar mem s) \<and>
        m_temp (Metar mem s) = 10 * digit_value a + digit_value b)
     \<and> (find is_temp (tokens s) = Some (''M'' @ [a, b] @ ''/'') \<longrightarrow>
        hasTemperature (Metar mem s) \<and> \<not> hasDewPoint (Metar mem s) \<and>
        m_temp (Metar mem s) = - (10 * digit_value a + digit_value b))"
proof -
  let ?r = "Metar mem s"
  note r = digit_value_range[OF assms(1)] digit_value_range[OF assms(2)]
    digit_value_range[OF assms(3)] digit_value_range[OF assms(4)]
  have p: "temp [a, b] = 10 * digit_value a + digit_value b"
    "temp [c, d] = 10 * digit_value c + digit_value d"
    "temp [CHR ''M'', a, b] = - (10 * digit_value a + digit_value b)"
    "temp [CHR ''M'', c, d] = - (10 * digit_value c + digit_value d)"
    using assms by (simp_all only: temp_plain temp_minus)
  have 1: "(m_temp ?r, m_dew ?r) = (temp [a, b], temp [c, d])"
    if f: "find is_temp (tokens s) = Some ([a, b] @ ''/'' @ [c, d])"
    unfolding temp_first f using temp_of_token(1)[OF assms(1,2), of "[c, d]"] by simp
  have 2: "(m_temp ?r, m_dew ?r) = (temp [a, b], temp [CHR ''M'', c, d])"
    if f: "find is_temp (tokens s) = Some ([a, b] @ ''/M'' @ [c, d])"
    unfolding temp_first f using temp_of_token(1)[OF assms(1,2), of "''M'' @ [c, d]"] by simp
  have 3: "(m_temp ?r, m_dew ?r) = (temp [CHR ''M'', a, b], temp [CHR ''M'', c, d])"
    if f: "find is_temp (tokens s) = Some (''M'' @ [a, b] @ ''/M'' @ [c, d])"
    unfolding temp_first f using temp_of_token(2)[OF assms(1,2), of "''M'' @ [c, d]"] by simp
  have 4: "(m_temp ?r, m_dew ?r) = (temp [a, b], INTEGER_UNDEFINED)"
    if f: "find is_temp (tokens s) = Some ([a, b] @ ''/'')"
    unfolding temp_first f using temp_of_token(1)[OF assms(1,2), of "[]"] by simp
  have 5: "(m_temp ?r, m_dew ?r) = (temp [CHR ''M'', a, b], INTEGER_UNDEFINED)"
    if f: "find is_temp (tokens s) = Some (''M'' @ [a, b] @ ''/'')"
    unfolding temp_first f using temp_of_token(2)[OF assms(1,2), of "[]"] by simp
  have u: "10 * digit_value a + digit_value b \<noteq> INTEGER_UNDEFINED"
    "10 * digit_value c + digit_value d \<noteq> INTEGER_UNDEFINED"
    "- (10 * digit_value a + digit_value b) \<noteq> INTEGER_UNDEFINED"
    "- (10 * digit_value c + digit_value d) \<noteq> INTEGER_UNDEFINED"
    using r by (simp_all add: INTEGER_UNDEFINED_def)
  show ?thesis
    unfolding hasTemperature_def hasDewPoint_def
    using 1 2 3 4 5 u unfolding p by (intro conjI impI) simp_all
qed

text \<open>
  C4 as stated fails for the shape it names: \<^verbatim>\<open>M07/05\<close>, an M on the left and none on
  the right, is not among the shapes of \<^verbatim>\<open>is_temp\<close>, matches no other predicate either,
  and leaves temperature and dew point absent.
\<close>

theorem temperature_M07_05_counterexample:
  "\<not> is_temp ''M07/05''
   \<and> \<not> hasTemperature (Metar zero_memory ''M07/05'')
   \<and> \<not> hasDewPoint (Metar zero_memory ''M07/05'')"
  by (simp add: run_defs hasDewPoint_def)

theorem temperature_shapes_witness:
  "hasTemperature (Metar zero_memory ''KSTL M14/M15 08/06'')
   \<and> hasDewPoint (Metar zero_memory ''KSTL M14/M15 08/06'')
   \<and> m_temp (Metar zero_memory ''KSTL M14/M15 08/06'') = - 14
   \<and> m_dew (Metar zero_memory ''KSTL M14/M15 08/06'') = - 15
   \<and> hasTemperature (Metar zero_memory ''15/'')
   \<and> \<not> hasDewPoint (Metar zero_memory ''15/'')
   \<and> m_temp (Metar zero_memory ''15/'') = 15"
proof -
  have d: "isdigit CHR ''1''" "isdigit CHR ''4''" "isdigit CHR ''5''"
    by (simp_all add: isdigit_def)
  have f: "find is_temp (tokens ''KSTL M14/M15 08/06'') =
      Some (''M'' @ [CHR ''1'', CHR ''4''] @ ''/M'' @ [CHR ''1'', CHR ''5''])"
    "find is_temp (tokens ''15/'') = Some ([CHR ''1'', CHR ''5''] @ ''/'')"
    by (simp_all add: tokens_def strtok_all_code NUL_def is_temp_def match_character_def
          isdigit_def)
  show ?thesis
    using temperature_shapes[OF d(1) d(2) d(1) d(3), of "''KSTL M14/M15 08/06''" zero_memory]
      temperature_shapes[OF d(1) d(3) d(1) d(3), of "''15/''" zero_memory] f
    by (simp add: digit_value_def)
qed


subsection \<open>C3: cloud layers\<close>


subsection \<open>C2: the first token wins\<close>




subsection \<open>C8: visibility and CAVOK\<close>

text \<open>
  C8. For every input string the decoded report never has both a visibility present and
  the CAVOK flag set. Once CAVOK is set, after some beginning of the tokens, the decoded
  report has the flag and no visibility, whatever tokens follow; once a visibility is
  present, the decoded report has that visibility and not the flag.
\<close>

theorem visibility_excludes_cavok:
  "\<not> (hasVisibility (Metar mem s) \<and> m_cavok (Metar mem s))
   \<and> (token_list s = tks @ rest \<and> m_cavok (report_after mem tks) \<longrightarrow>
        m_cavok (Metar mem s) \<and> \<not> hasVisibility (Metar mem s))
   \<and> (token_list s = tks @ rest \<and> hasVisibility (report_after mem tks) \<longrightarrow>
        \<not> m_cavok (Metar mem s) \<and> hasVisibility (Metar mem s)
        \<and> m_vis (Metar mem s) = m_vis (report_after mem tks))"
proof -
  have i: "\<not> (hasVisibility (report_after mem ts) \<and> m_cavok (report_after mem ts))" for ts
    unfolding report_after_def
    by (rule vis_cavok_fold(1)) (simp add: Metar_init_def)
  have 1: "\<not> (hasVisibility (Metar mem s) \<and> m_cavok (Metar mem s))"
    using i[of "token_list s"] by (simp add: Metar_report_after)
  have 2: "m_cavok (Metar mem s) \<and> \<not> hasVisibility (Metar mem s)"
    if "token_list s = tks @ rest \<and> m_cavok (report_after mem tks)"
    using that i[of tks] vis_cavok_fold(2)[of "report_after mem tks" mem rest]
    by (auto simp: Metar_report_after report_after_append)
  have 3: "\<not> m_cavok (Metar mem s) \<and> hasVisibility (Metar mem s)
        \<and> m_vis (Metar mem s) = m_vis (report_after mem tks)"
    if "token_list s = tks @ rest \<and> hasVisibility (report_after mem tks)"
    using that i[of tks] stable_fold(6)[of "report_after mem tks" mem rest]
    by (auto simp: Metar_report_after report_after_append hasVisibility_def)
  show ?thesis
    using 1 2 3 by blast
qed

theorem visibility_excludes_cavok_witness:
  "m_cavok (Metar zero_memory ''CAVOK 9999'')
   \<and> \<not> hasVisibility (Metar zero_memory ''CAVOK 9999'')
   \<and> \<not> m_cavok (Metar zero_memory ''10SM CAVOK'')
   \<and> hasVisibility (Metar zero_memory ''10SM CAVOK'')
   \<and> m_vis (Metar zero_memory ''10SM CAVOK'') = Fin 10"
proof -
  have 1: "token_list ''CAVOK 9999'' = [(''CAVOK'', ''9999'' @ [NUL])] @ [(''9999'', [])]"
    "token_list ''10SM CAVOK'' = [(''10SM'', ''CAVOK'' @ [NUL])] @ [(''CAVOK'', [])]"
    by (simp_all add: token_list_def strtok_all_code NUL_def)
  have 2: "m_cavok (report_after zero_memory [(''CAVOK'', ''9999'' @ [NUL])])"
    "hasVisibility (report_after zero_memory [(''10SM'', ''CAVOK'' @ [NUL])])"
    "m_vis (report_after zero_memory [(''10SM'', ''CAVOK'' @ [NUL])]) = Fin 10"
    by (simp_all add: report_after_def run_defs)
  show ?thesis
    using visibility_excludes_cavok[of zero_memory "''CAVOK 9999''"
        "[(''CAVOK'', ''9999'' @ [NUL])]" "[(''9999'', [])]"]
      visibility_excludes_cavok[of zero_memory "''10SM CAVOK''"
        "[(''10SM'', ''CAVOK'' @ [NUL])]" "[(''CAVOK'', [])]"] 1 2
    by simp
qed

end
